theory Spec2Isabelle
  imports Complex_Main "HOL-Library.AList" "HOL-Library.Sublist"
begin

section \<open>JavaScript values and the runtime\<close>

text \<open>
  The tool handlers are JavaScript closures over plain data: the argument object of a tool
  call, the request bodies they build, and the decoded bodies of upstream responses. One
  datatype covers them. A number is modelled by its real value: the handlers never calculate
  with numbers, they only forward them, test them for truthiness and print them, and a JSON
  document carries neither NaN nor an infinity. An object is its property list in insertion
  order; a property may be present with the value \<open>Undefined\<close>, which is not the same
  as the property being absent.
\<close>

datatype jsval =
    Undefined
  | Null
  | Bool bool
  | Number real
  | String string
  | Array "jsval list"
  | Object "(string \<times> jsval) list"

type_synonym jsobject = "(string \<times> jsval) list"

text \<open>
  The built-ins of the JavaScript runtime that the handlers call are parameters of the
  model. \<open>JSON_parse\<close> returns \<open>Inl m\<close> when \<open>JSON.parse\<close> throws its
  \<open>SyntaxError\<close> with message \<open>m\<close>. \<open>JSON_stringify\<close> is
  \<open>JSON.stringify(v)\<close> and \<open>JSON_stringify_indent\<close> is
  \<open>JSON.stringify(v, null, 2)\<close>, both on the decoded body of a response.
  \<open>TypeError_message\<close> is the message the engine gives a TypeError, by the operation
  that failed: \<open>convert\<close> (an object has no string form), \<open>read\<close> (a property
  of null or undefined) or \<open>call\<close> (a method that is not there).
\<close>

record js_runtime =
  JSON_parse :: "string \<Rightarrow> string + jsval"
  JSON_stringify :: "jsval \<Rightarrow> string"
  JSON_stringify_indent :: "jsval \<Rightarrow> string"
  Number_toString :: "real \<Rightarrow> string"
  String_length :: "string \<Rightarrow> nat"
  TypeError_message :: "string \<Rightarrow> string"

fun nullish :: "jsval \<Rightarrow> bool" where
  "nullish Undefined = True"
| "nullish Null = True"
| "nullish _ = False"

text \<open>Truthiness, as tested by \<open>if (x)\<close>, \<open>!x\<close>, \<open>x || y\<close> and \<open>x && y\<close>.\<close>

fun truthy :: "jsval \<Rightarrow> bool" where
  "truthy Undefined = False"
| "truthy Null = False"
| "truthy (Bool b) = b"
| "truthy (Number n) = (n \<noteq> 0)"
| "truthy (String s) = (s \<noteq> [])"
| "truthy (Array xs) = True"
| "truthy (Object kvs) = True"

definition or_else :: "jsval \<Rightarrow> jsval \<Rightarrow> jsval" where
  "or_else x y = (if truthy x then x else y)"

fun join :: "string \<Rightarrow> string list \<Rightarrow> string" where
  "join sep [] = []"
| "join sep [x] = x"
| "join sep (x # y # ys) = x @ sep @ join sep (y # ys)"

record axios_response =
  status :: nat
  data :: jsval

text \<open>
  What a \<open>catch\<close> clause can receive, in the classes the source itself tells apart with
  \<open>instanceof\<close>: an \<open>AxiosError\<close> with its message and, when the server answered,
  its response; any other \<open>Error\<close> with its message; any other thrown value.
\<close>

datatype js_error =
    AxiosError string "axios_response option"
  | Error string
  | NonError jsval

definition TypeError :: "js_runtime \<Rightarrow> string \<Rightarrow> js_error" where
  "TypeError rt operation = Error (TypeError_message rt operation)"

text \<open>
  The string conversion of template literals and of \<open>String(x)\<close>. An array prints its
  elements separated by commas, with nothing for a null or undefined element. A plain
  object prints as \<open>[object Object]\<close> through the \<open>toString\<close> it inherits; an object
  with a key \<open>toString\<close> of its own, which in decoded JSON is never a function, has no
  string form, and converting it throws a TypeError.
\<close>

fun to_string :: "js_runtime \<Rightarrow> jsval \<Rightarrow> js_error + string"
  and to_strings :: "js_runtime \<Rightarrow> jsval list \<Rightarrow> js_error + string list" where
  "to_string rt Undefined = Inr ''undefined''"
| "to_string rt Null = Inr ''null''"
| "to_string rt (Bool b) = Inr (if b then ''true'' else ''false'')"
| "to_string rt (Number n) = Inr (Number_toString rt n)"
| "to_string rt (String s) = Inr s"
| "to_string rt (Array xs) =
     (case to_strings rt xs of Inl e \<Rightarrow> Inl e | Inr ss \<Rightarrow> Inr (join '','' ss))"
| "to_string rt (Object kvs) =
     (if map_of kvs ''toString'' = None then Inr ''[object Object]''
      else Inl (TypeError rt ''convert''))"
| "to_strings rt [] = Inr []"
| "to_strings rt (x # xs) =
     (case (if nullish x then Inr [] else to_string rt x) of
        Inl e \<Rightarrow> Inl e
      | Inr s \<Rightarrow> (case to_strings rt xs of Inl e \<Rightarrow> Inl e | Inr ss \<Rightarrow> Inr (s # ss)))"

text \<open>
  The interpolation of a parameter that the tool's schema declares a string or a number,
  such as \<open>${siteId}\<close>: it is the string conversion, which cannot throw for such a
  value. For a value that has no string form, which no call that passed its schema hands
  to a handler, the model uses the empty text.
\<close>

definition param_string :: "js_runtime \<Rightarrow> jsval \<Rightarrow> string" where
  "param_string rt v = (case to_string rt v of Inr s \<Rightarrow> s | Inl e \<Rightarrow> [])"

text \<open>
  Reading a property \<open>v.k\<close> of a value that is neither null nor undefined. The handlers
  read named data properties and \<open>length\<close>; none reads an index.
\<close>

fun get_prop :: "js_runtime \<Rightarrow> jsval \<Rightarrow> string \<Rightarrow> jsval" where
  "get_prop rt (Object kvs) k = (case map_of kvs k of Some v \<Rightarrow> v | None \<Rightarrow> Undefined)"
| "get_prop rt (Array xs) k = (if k = ''length'' then Number (of_nat (length xs)) else Undefined)"
| "get_prop rt (String s) k =
     (if k = ''length'' then Number (of_nat (String_length rt s)) else Undefined)"
| "get_prop rt v k = Undefined"

text \<open>Destructuring the argument object: \<open>{k}\<close> and the rest pattern \<open>{k, ...rest}\<close>.\<close>

definition lookup :: "jsobject \<Rightarrow> string \<Rightarrow> jsval" where
  "lookup obj k = (case map_of obj k of Some v \<Rightarrow> v | None \<Rightarrow> Undefined)"

definition omit :: "string list \<Rightarrow> jsobject \<Rightarrow> jsobject" where
  "omit ks obj = filter (\<lambda>p. fst p \<notin> set ks) obj"

section \<open>Tool output, errors and the upstream call\<close>

record block =
  block_type :: string
  block_text :: string

record envelope =
  content :: "block list"

definition text_content :: "string \<Rightarrow> envelope" where
  "text_content s = \<lparr>content = [\<lparr>block_type = ''text'', block_text = s\<rparr>]\<rparr>"

text \<open>
  One upstream call: the callee as written in the source and the values of its arguments.
  The upstream is a function from the call to how its promise settles; \<open>Fulfilled d\<close>
  carries the decoded response body (\<open>response.data\<close> for Axios, the result for the
  Fingertip client), which is a JSON value and so never undefined.
\<close>

datatype request = Call string "jsval list"

datatype settled = Fulfilled jsval | Rejected js_error

type_synonym transport = "request \<Rightarrow> settled"

text \<open>
  A handler either returns an envelope or lets an exception escape; with it comes the list
  of upstream calls it made. Writing to the error stream (\<open>console.error\<close>) is not
  modelled.
\<close>

datatype outcome = Returns envelope | Throws js_error

type_synonym handler = "js_runtime \<Rightarrow> transport \<Rightarrow> jsobject \<Rightarrow> outcome \<times> request list"

section \<open>The Axios server (src/unnamed/part\_000, third program)\<close>

text \<open>
  \<open>getErrorMessage\<close> returns a value, which need not be a string when it comes from the
  body of the response; \<open>String(error)\<close> in its last line throws when what was thrown
  has no string form.
\<close>

fun getErrorMessage :: "js_runtime \<Rightarrow> js_error \<Rightarrow> js_error + jsval" where
  "getErrorMessage rt (AxiosError m resp) =
     (case resp of
        None \<Rightarrow> Inr (String m)
      | Some r \<Rightarrow>
          if nullish (data r) then Inr (String m)
          else if truthy (get_prop rt (data r) ''message'')
               then Inr (get_prop rt (data r) ''message'')
               else Inr (String m))"
| "getErrorMessage rt (Error m) = Inr (String m)"
| "getErrorMessage rt (NonError v) =
     (case to_string rt v of Inl e \<Rightarrow> Inl e | Inr s \<Rightarrow> Inr (String s))"

text \<open>
  Every handler of this program ends in the same way: it awaits one call and returns the
  serialised \<open>response.data\<close>, and its \<open>catch\<close> block returns
  \<open>`Error: ${getErrorMessage(error)}`\<close>. Nothing catches what the \<open>catch\<close> block
  itself throws: when \<open>getErrorMessage\<close> throws, or its result has no string form,
  the exception leaves the handler.
\<close>

definition axios_catch :: "js_runtime \<Rightarrow> js_error \<Rightarrow> outcome" where
  "axios_catch rt error =
     (case getErrorMessage rt error of
        Inl e \<Rightarrow> Throws e
      | Inr m \<Rightarrow>
          (case to_string rt m of
             Inl e \<Rightarrow> Throws e
           | Inr s \<Rightarrow> Returns (text_content (''Error: '' @ s))))"

definition axios_reply :: "js_runtime \<Rightarrow> transport \<Rightarrow> request \<Rightarrow> outcome \<times> request list" where
  "axios_reply rt api req =
     (case api req of
        Fulfilled d \<Rightarrow> (Returns (text_content (JSON_stringify rt d)), [req])
      | Rejected error \<Rightarrow> (axios_catch rt error, [req]))"

text \<open>The inner \<open>try\<close> around \<open>JSON.parse(content)\<close>, shared by three handlers.\<close>

definition parse_error_text :: "string \<Rightarrow> string" where
  "parse_error_text m = ''Error parsing content JSON: '' @ m"

definition src3_ping :: handler where
  "src3_ping rt api args = axios_reply rt api (Call ''fingertipApi.get'' [String ''/ping''])"

definition src3_get_sites :: handler where
  "src3_get_sites rt api params =
     axios_reply rt api
       (Call ''fingertipApi.get'' [String ''/sites'', Object [(''params'', Object params)]])"

definition src3_get_site :: handler where
  "src3_get_site rt api args =
     (let siteId = lookup args ''siteId''
      in axios_reply rt api (Call ''fingertipApi.get'' [String (''/sites/'' @ param_string rt siteId)]))"

definition src3_create_site_data :: "jsobject \<Rightarrow> jsobject" where
  "src3_create_site_data args =
     (let name = lookup args ''name'';
          slug = lookup args ''slug'';
          businessType = lookup args ''businessType'';
          description = lookup args ''description'';
          status = lookup args ''status'';
          pages = lookup args ''pages''
      in [(''name'', name),
          (''slug'', slug),
          (''businessType'', businessType),
          (''description'', or_else description Null),
          (''status'', or_else status (String ''UNPUBLISHED'')),
          (''pages'', or_else pages (Array [Object
             [(''slug'', String ''index''),
              (''name'', name),
              (''description'', or_else description Null),
              (''pageTheme'', Object [(''content'', Object []), (''componentPageThemeId'', Null)]),
              (''blocks'', Array [])]]))])"

definition src3_create_site :: handler where
  "src3_create_site rt api args =
     axios_reply rt api
       (Call ''fingertipApi.post'' [String ''/sites'', Object (src3_create_site_data args)])"

definition src3_get_page :: handler where
  "src3_get_page rt api args =
     (let pageId = lookup args ''pageId''
      in axios_reply rt api (Call ''fingertipApi.get'' [String (''/pages/'' @ param_string rt pageId)]))"

definition src3_update_page :: handler where
  "src3_update_page rt api args =
     (let pageId = lookup args ''pageId'';
          updateData = omit [''pageId''] args
      in axios_reply rt api
           (Call ''fingertipApi.patch''
              [String (''/pages/'' @ param_string rt pageId), Object updateData]))"

definition src3_get_page_blocks :: handler where
  "src3_get_page_blocks rt api args =
     (let pageId = lookup args ''pageId''
      in axios_reply rt api
           (Call ''fingertipApi.get'' [String (''/pages/'' @ param_string rt pageId @ ''/blocks'')]))"

definition src3_create_block :: handler where
  "src3_create_block rt api args =
     (let pageId = lookup args ''pageId'';
          content = lookup args ''content'';
          restData = omit [''pageId'', ''content''] args;
          blockData =
            AList.update ''componentBlockId''
              (or_else (lookup restData ''componentBlockId'') Null) restData;
          url = ''/pages/'' @ param_string rt pageId @ ''/blocks''
      in if truthy content then
           (case JSON_parse rt (param_string rt content) of
              Inl m \<Rightarrow> (Returns (text_content (parse_error_text m)), [])
            | Inr v \<Rightarrow>
                axios_reply rt api
                  (Call ''fingertipApi.post''
                     [String url, Object (AList.update ''content'' v blockData)]))
         else axios_reply rt api (Call ''fingertipApi.post'' [String url, Object blockData]))"

definition src3_get_page_theme :: handler where
  "src3_get_page_theme rt api args =
     (let pageId = lookup args ''pageId''
      in axios_reply rt api
           (Call ''fingertipApi.get'' [String (''/pages/'' @ param_string rt pageId @ ''/theme'')]))"

definition src3_update_page_theme :: handler where
  "src3_update_page_theme rt api args =
     (let pageId = lookup args ''pageId'';
          content = lookup args ''content'';
          restUpdateData = omit [''pageId'', ''content''] args;
          updateData = restUpdateData;
          url = ''/pages/'' @ param_string rt pageId @ ''/theme''
      in if truthy content then
           (case JSON_parse rt (param_string rt content) of
              Inl m \<Rightarrow> (Returns (text_content (parse_error_text m)), [])
            | Inr v \<Rightarrow>
                axios_reply rt api
                  (Call ''fingertipApi.patch''
                     [String url, Object (AList.update ''content'' v updateData)]))
         else axios_reply rt api (Call ''fingertipApi.patch'' [String url, Object updateData]))"

definition src3_get_block :: handler where
  "src3_get_block rt api args =
     (let blockId = lookup args ''blockId''
      in axios_reply rt api (Call ''fingertipApi.get'' [String (''/blocks/'' @ param_string rt blockId)]))"

definition src3_update_block :: handler where
  "src3_update_block rt api args =
     (let blockId = lookup args ''blockId'';
          content = lookup args ''content'';
          restUpdateData = omit [''blockId'', ''content''] args;
          updateData = restUpdateData;
          url = ''/blocks/'' @ param_string rt blockId
      in if truthy content then
           (case JSON_parse rt (param_string rt content) of
              Inl m \<Rightarrow> (Returns (text_content (parse_error_text m)), [])
            | Inr v \<Rightarrow>
                axios_reply rt api
                  (Call ''fingertipApi.patch''
                     [String url, Object (AList.update ''content'' v updateData)]))
         else axios_reply rt api (Call ''fingertipApi.patch'' [String url, Object updateData]))"

definition src3_delete_block :: handler where
  "src3_delete_block rt api args =
     (let blockId = lookup args ''blockId''
      in axios_reply rt api
           (Call ''fingertipApi.delete'' [String (''/blocks/'' @ param_string rt blockId)]))"

text \<open>The registrations \<open>server.tool(name, description, schema, handler)\<close>, in source order.\<close>

definition src3_tools :: "(string \<times> handler) list" where
  "src3_tools =
     [(''ping'', src3_ping),
      (''get-sites'', src3_get_sites),
      (''get-site'', src3_get_site),
      (''create-site'', src3_create_site),
      (''get-page'', src3_get_page),
      (''update-page'', src3_update_page),
      (''get-page-blocks'', src3_get_page_blocks),
      (''create-block'', src3_create_block),
      (''get-page-theme'', src3_get_page_theme),
      (''update-page-theme'', src3_update_page_theme),
      (''get-block'', src3_get_block),
      (''update-block'', src3_update_block),
      (''delete-block'', src3_delete_block)]"

section \<open>The Fingertip client servers that pass the result through\<close>

text \<open>
  The first two programs of src/unnamed/part\_000 call the Fingertip client. Constructing the
  client (\<open>new Fingertip({ apiKey })\<close>) makes no upstream call and is not modelled.
  Their \<open>catch\<close> blocks print \<open>error.message\<close> of whatever was thrown; reading a
  property of null or undefined throws a TypeError, and so does printing a message that
  has no string form, both out of the handler.
\<close>

fun error_message :: "js_runtime \<Rightarrow> js_error \<Rightarrow> js_error + jsval" where
  "error_message rt (AxiosError m resp) = Inr (String m)"
| "error_message rt (Error m) = Inr (String m)"
| "error_message rt (NonError v) =
     (if nullish v then Inl (TypeError rt ''read'') else Inr (get_prop rt v ''message''))"

definition sdk_catch :: "js_runtime \<Rightarrow> js_error \<Rightarrow> outcome" where
  "sdk_catch rt error =
     (case error_message rt error of
        Inl e \<Rightarrow> Throws e
      | Inr m \<Rightarrow>
          (case to_string rt m of
             Inl e \<Rightarrow> Throws e
           | Inr s \<Rightarrow> Returns (text_content (''Error: '' @ s))))"

definition sdk_reply :: "js_runtime \<Rightarrow> (jsval \<Rightarrow> string) \<Rightarrow> transport \<Rightarrow> request \<Rightarrow> outcome \<times> request list" where
  "sdk_reply rt stringify api req =
     (case api req of
        Fulfilled result \<Rightarrow> (Returns (text_content (stringify result)), [req])
      | Rejected error \<Rightarrow> (sdk_catch rt error, [req]))"

subsection \<open>First program (part\_000, lines 1 to 391)\<close>

definition src1_reply :: "js_runtime \<Rightarrow> transport \<Rightarrow> request \<Rightarrow> outcome \<times> request list" where
  "src1_reply rt api req = sdk_reply rt (JSON_stringify_indent rt) api req"

definition src1_get_sites :: handler where
  "src1_get_sites rt api params =
     src1_reply rt api (Call ''client.api.v1.sites.list'' [Object params])"

definition src1_get_site :: handler where
  "src1_get_site rt api args =
     (let siteId = lookup args ''siteId''
      in src1_reply rt api (Call ''client.api.v1.sites.retrieve'' [siteId]))"

definition src1_create_site_data :: "jsobject \<Rightarrow> jsobject" where
  "src1_create_site_data args =
     (let name = lookup args ''name'';
          slug = lookup args ''slug'';
          businessType = lookup args ''businessType'';
          description = lookup args ''description''
      in [(''name'', name),
          (''slug'', slug),
          (''businessType'', businessType),
          (''description'', or_else description Null),
          (''status'', String ''UNPUBLISHED''),
          (''pages'', Array [Object
             [(''slug'', String ''index''),
              (''name'', name),
              (''description'', or_else description Null),
              (''pageTheme'', Object [(''content'', Object []), (''componentPageThemeId'', Null)]),
              (''blocks'', Array [])]])])"

definition src1_create_site :: handler where
  "src1_create_site rt api args =
     src1_reply rt api (Call ''client.api.v1.sites.create'' [Object (src1_create_site_data args)])"

definition src1_get_page :: handler where
  "src1_get_page rt api args =
     (let pageId = lookup args ''pageId''
      in src1_reply rt api (Call ''client.api.v1.pages.retrieve'' [pageId]))"

definition src1_update_page :: handler where
  "src1_update_page rt api args =
     (let pageId = lookup args ''pageId'';
          updateData = omit [''pageId''] args
      in src1_reply rt api (Call ''client.api.v1.pages.update'' [pageId, Object updateData]))"

definition src1_get_page_blocks :: handler where
  "src1_get_page_blocks rt api args =
     (let pageId = lookup args ''pageId''
      in src1_reply rt api (Call ''client.api.v1.pages.blocks.list'' [pageId]))"

definition src1_get_page_theme :: handler where
  "src1_get_page_theme rt api args =
     (let pageId = lookup args ''pageId''
      in src1_reply rt api (Call ''client.api.v1.pages.theme.retrieve'' [pageId]))"

definition src1_update_page_theme :: handler where
  "src1_update_page_theme rt api args =
     (let pageId = lookup args ''pageId'';
          updateData = omit [''pageId''] args
      in src1_reply rt api (Call ''client.api.v1.pages.theme.update'' [pageId, Object updateData]))"

definition src1_update_block :: handler where
  "src1_update_block rt api args =
     (let blockId = lookup args ''blockId'';
          updateData = omit [''blockId''] args
      in src1_reply rt api (Call ''client.api.v1.blocks.update'' [blockId, Object updateData]))"

definition src1_tools :: "(string \<times> handler) list" where
  "src1_tools =
     [(''get-sites'', src1_get_sites),
      (''get-site'', src1_get_site),
      (''create-site'', src1_create_site),
      (''get-page'', src1_get_page),
      (''update-page'', src1_update_page),
      (''get-page-blocks'', src1_get_page_blocks),
      (''get-page-theme'', src1_get_page_theme),
      (''update-page-theme'', src1_update_page_theme),
      (''update-block'', src1_update_block)]"

subsection \<open>Second program (part\_000, lines 393 to 899)\<close>

definition src2_reply :: "js_runtime \<Rightarrow> transport \<Rightarrow> request \<Rightarrow> outcome \<times> request list" where
  "src2_reply rt api req = sdk_reply rt (JSON_stringify rt) api req"

definition src2_get_sites :: handler where
  "src2_get_sites rt api params =
     src2_reply rt api (Call ''client.v1.sites.list'' [Object params])"

definition src2_get_site :: handler where
  "src2_get_site rt api args =
     (let siteId = lookup args ''siteId''
      in src2_reply rt api (Call ''client.v1.sites.retrieve'' [siteId]))"

definition src2_create_site_data :: "jsobject \<Rightarrow> jsobject" where
  "src2_create_site_data args =
     (let name = lookup args ''name'';
          slug = lookup args ''slug'';
          businessType = lookup args ''businessType'';
          description = lookup args ''description''
      in [(''name'', name),
          (''slug'', slug),
          (''businessType'', businessType),
          (''description'', or_else description Null),
          (''status'', String ''UNPUBLISHED''),
          (''pages'', Array [Object
             [(''slug'', String ''index''),
              (''name'', name),
              (''description'', or_else description Null),
              (''pageTheme'', Object [(''content'', Object []), (''componentPageThemeId'', Null)]),
              (''blocks'', Array [])]])])"

definition src2_create_site :: handler where
  "src2_create_site rt api args =
     src2_reply rt api (Call ''client.v1.sites.create'' [Object (src2_create_site_data args)])"

definition src2_get_page :: handler where
  "src2_get_page rt api args =
     (let pageId = lookup args ''pageId''
      in src2_reply rt api (Call ''client.v1.pages.retrieve'' [pageId]))"

definition src2_update_page :: handler where
  "src2_update_page rt api args =
     (let pageId = lookup args ''pageId'';
          updateData = omit [''pageId''] args
      in src2_reply rt api (Call ''client.v1.pages.update'' [pageId, Object updateData]))"

definition src2_get_page_blocks :: handler where
  "src2_get_page_blocks rt api args =
     (let pageId = lookup args ''pageId''
      in src2_reply rt api (Call ''client.v1.pages.blocks.list'' [pageId]))"

definition src2_get_page_theme :: handler where
  "src2_get_page_theme rt api args =
     (let pageId = lookup args ''pageId''
      in src2_reply rt api (Call ''client.v1.pages.theme.retrieve'' [pageId]))"

definition src2_update_page_theme :: handler where
  "src2_update_page_theme rt api args =
     (let pageId = lookup args ''pageId'';
          content = lookup args ''content'';
          restUpdateData = omit [''pageId'', ''content''] args;
          updateData = restUpdateData
      in if truthy content then
           (case JSON_parse rt (param_string rt content) of
              Inl m \<Rightarrow> (Returns (text_content (parse_error_text m)), [])
            | Inr v \<Rightarrow>
                src2_reply rt api
                  (Call ''client.v1.pages.theme.update''
                     [pageId, Object (AList.update ''content'' v updateData)]))
         else src2_reply rt api (Call ''client.v1.pages.theme.update'' [pageId, Object updateData]))"

definition src2_update_block :: handler where
  "src2_update_block rt api args =
     (let blockId = lookup args ''blockId'';
          content = lookup args ''content'';
          restUpdateData = omit [''blockId'', ''content''] args;
          updateData = restUpdateData
      in if truthy content then
           (case JSON_parse rt (param_string rt content) of
              Inl m \<Rightarrow> (Returns (text_content (parse_error_text m)), [])
            | Inr v \<Rightarrow>
                src2_reply rt api
                  (Call ''client.v1.blocks.update''
                     [blockId, Object (AList.update ''content'' v updateData)]))
         else src2_reply rt api (Call ''client.v1.blocks.update'' [blockId, Object updateData]))"

definition src2_create_block :: handler where
  "src2_create_block rt api args =
     (let pageId = lookup args ''pageId'';
          content = lookup args ''content'';
          name = lookup args ''name'';
          kind = lookup args ''kind'';
          isComponent = lookup args ''isComponent'';
          componentBlockId = lookup args ''componentBlockId'';
          blockData =
            [(''name'', name),
             (''kind'', kind),
             (''isComponent'', or_else isComponent (Bool False)),
             (''componentBlockId'', componentBlockId)]
      in if truthy content then
           (case JSON_parse rt (param_string rt content) of
              Inl m \<Rightarrow> (Returns (text_content (parse_error_text m)), [])
            | Inr v \<Rightarrow>
                src2_reply rt api
                  (Call ''client.v1.pages.blocks.create''
                     [pageId, Object (AList.update ''content'' v blockData)]))
         else src2_reply rt api (Call ''client.v1.pages.blocks.create'' [pageId, Object blockData]))"

definition src2_tools :: "(string \<times> handler) list" where
  "src2_tools =
     [(''get-sites'', src2_get_sites),
      (''get-site'', src2_get_site),
      (''create-site'', src2_create_site),
      (''get-page'', src2_get_page),
      (''update-page'', src2_update_page),
      (''get-page-blocks'', src2_get_page_blocks),
      (''get-page-theme'', src2_get_page_theme),
      (''update-page-theme'', src2_update_page_theme),
      (''update-block'', src2_update_block),
      (''create-block'', src2_create_block)]"

section \<open>The servers that print a digest (src/dist/index.js)\<close>

text \<open>
  Both programs of src/dist/index.js call the Fingertip client, print selected fields of
  the result, and answer every exception with a fixed sentence. \<open>show_prop rt v k\<close> is
  the interpolation \<open>${v.k}\<close> and \<open>show_prop_or rt v k d\<close> is
  \<open>${v.k || d}\<close>, both for a value \<open>v\<close> that is neither null nor undefined; they
  throw when the field has no string form. \<open>template\<close> is a template literal, given
  as its pieces in order, and \<open>join_parts\<close> is \<open>[...].join(sep)\<close> on an array of
  such texts: the first piece that throws ends the evaluation.
\<close>

definition newline :: string where
  "newline = [CHR 0x0A]"

definition dquote :: string where
  "dquote = [CHR 0x22]"

definition show_prop :: "js_runtime \<Rightarrow> jsval \<Rightarrow> string \<Rightarrow> js_error + string" where
  "show_prop rt v k = to_string rt (get_prop rt v k)"

definition show_prop_or :: "js_runtime \<Rightarrow> jsval \<Rightarrow> string \<Rightarrow> string \<Rightarrow> js_error + string" where
  "show_prop_or rt v k d = to_string rt (or_else (get_prop rt v k) (String d))"

text \<open>
  \<open>xs.map(f)\<close> for a callback that may throw: calling \<open>map\<close> on anything but an
  array is a TypeError, and the first callback that throws ends the loop.
\<close>

fun map_try :: "('a \<Rightarrow> js_error + 'b) \<Rightarrow> 'a list \<Rightarrow> js_error + 'b list" where
  "map_try f [] = Inr []"
| "map_try f (x # xs) =
     (case f x of
        Inl e \<Rightarrow> Inl e
      | Inr y \<Rightarrow> (case map_try f xs of Inl e \<Rightarrow> Inl e | Inr ys \<Rightarrow> Inr (y # ys)))"

fun array_map :: "js_runtime \<Rightarrow> (jsval \<Rightarrow> js_error + string) \<Rightarrow> jsval \<Rightarrow> js_error + string list" where
  "array_map rt f (Array xs) = map_try f xs"
| "array_map rt f v = Inl (TypeError rt ''call'')"

definition template :: "(js_error + string) list \<Rightarrow> js_error + string" where
  "template parts =
     (case map_try (\<lambda>p. p) parts of Inl e \<Rightarrow> Inl e | Inr ss \<Rightarrow> Inr (concat ss))"

definition join_parts :: "string \<Rightarrow> (js_error + string) list \<Rightarrow> js_error + string" where
  "join_parts sep parts =
     (case map_try (\<lambda>p. p) parts of Inl e \<Rightarrow> Inl e | Inr ss \<Rightarrow> Inr (join sep ss))"

text \<open>
  The shape of every handler here: one awaited call, then the rest of the \<open>try\<close> block
  \<open>format\<close>, which may return a text or throw; the \<open>catch\<close> block returns the text
  \<open>failure\<close> whatever was thrown.
\<close>

definition dist_reply :: "transport \<Rightarrow> request \<Rightarrow> (jsval \<Rightarrow> js_error + string) \<Rightarrow> string \<Rightarrow> outcome \<times> request list" where
  "dist_reply api req format failure =
     (case api req of
        Fulfilled response \<Rightarrow>
          (case format response of
             Inr s \<Rightarrow> (Returns (text_content s), [req])
           | Inl error \<Rightarrow> (Returns (text_content failure), [req]))
      | Rejected error \<Rightarrow> (Returns (text_content failure), [req]))"

definition set_if_truthy :: "string \<Rightarrow> jsval \<Rightarrow> jsobject \<Rightarrow> jsobject" where
  "set_if_truthy k v obj = (if truthy v then AList.update k v obj else obj)"

definition set_if_defined :: "string \<Rightarrow> jsval \<Rightarrow> jsobject \<Rightarrow> jsobject" where
  "set_if_defined k v obj = (if v \<noteq> Undefined then AList.update k v obj else obj)"

subsection \<open>First program (index.js, lines 1 to 558)\<close>

definition format_site_row :: "js_runtime \<Rightarrow> jsval \<Rightarrow> js_error + string" where
  "format_site_row rt site =
     (if nullish site then Inl (TypeError rt ''read'')
      else template
        [Inr ''ID: '', show_prop rt site ''id'', Inr newline,
         Inr ''Name: '', show_prop rt site ''name'', Inr newline,
         Inr ''Slug: '', show_prop rt site ''slug'', Inr newline,
         Inr ''Status: '', show_prop rt site ''status'', Inr newline,
         Inr ''Created: '', show_prop rt site ''createdAt'', Inr newline,
         Inr ''---''])"

definition format_sites :: "js_runtime \<Rightarrow> jsval \<Rightarrow> js_error + string" where
  "format_sites rt sitesData =
     (if \<not> truthy sitesData \<or> \<not> truthy (get_prop rt sitesData ''items'')
      then Inr ''Failed to retrieve sites data''
      else if get_prop rt (get_prop rt sitesData ''items'') ''length'' = Number 0
      then Inr ''No sites found''
      else (case array_map rt (format_site_row rt) (get_prop rt sitesData ''items'') of
              Inl e \<Rightarrow> Inl e
            | Inr formattedSites \<Rightarrow>
                template
                  [Inr ''Sites ('', show_prop rt sitesData ''total'', Inr '' total):'',
                   Inr newline, Inr newline, Inr (join newline formattedSites)]))"

definition dist1_get_sites :: handler where
  "dist1_get_sites rt api args =
     (let pageSize = lookup args ''pageSize'';
          cursor = lookup args ''cursor'';
          search = lookup args ''search'';
          params = [];
          params = (if truthy pageSize
                    then AList.update ''pageSize'' (String (param_string rt pageSize)) params
                    else params);
          params = set_if_truthy ''cursor'' cursor params;
          params = set_if_truthy ''search'' search params
      in dist_reply api (Call ''client.api.v1.sites.list'' [Object params]) (format_sites rt)
           ''Failed to retrieve sites. Please check your API key and try again.'')"

definition format_site_details :: "js_runtime \<Rightarrow> jsval \<Rightarrow> jsval \<Rightarrow> js_error + string" where
  "format_site_details rt siteId response =
     (if \<not> truthy response \<or> \<not> truthy (get_prop rt response ''site'')
      then Inr (''Failed to retrieve site with ID: '' @ param_string rt siteId)
      else
        (let site = get_prop rt response ''site'';
             pagesInfo =
               (if truthy (get_prop rt site ''pages'')
                then template
                       [Inr newline, Inr ''Pages: '',
                        show_prop rt (get_prop rt site ''pages'') ''length'']
                else Inr [])
         in case pagesInfo of
              Inl e \<Rightarrow> Inl e
            | Inr pages \<Rightarrow>
                join_parts newline
                  [Inr ''Site Details:'',
                   template [Inr ''ID: '', show_prop rt site ''id''],
                   template [Inr ''Name: '', show_prop rt site ''name''],
                   template [Inr ''Slug: '', show_prop rt site ''slug''],
                   template [Inr ''Description: '', show_prop_or rt site ''description'' ''None''],
                   template [Inr ''Status: '', show_prop rt site ''status''],
                   template [Inr ''Business Type: '',
                             show_prop_or rt site ''businessType'' ''None''],
                   template [Inr ''Created: '', show_prop rt site ''createdAt''],
                   template [Inr ''Updated: '', show_prop rt site ''updatedAt''],
                   Inr pages]))"

definition dist1_get_site :: handler where
  "dist1_get_site rt api args =
     (let siteId = lookup args ''siteId''
      in dist_reply api (Call ''client.api.v1.sites.retrieve'' [siteId])
           (format_site_details rt siteId)
           (''Failed to retrieve site with ID: '' @ param_string rt siteId @
            ''. The site may not exist or you may not have permission to access it.''))"

definition dist1_create_site_data :: "jsobject \<Rightarrow> jsobject" where
  "dist1_create_site_data args =
     (let name = lookup args ''name'';
          slug = lookup args ''slug'';
          businessType = lookup args ''businessType'';
          description = lookup args ''description''
      in [(''name'', name),
          (''slug'', slug),
          (''businessType'', businessType),
          (''description'', or_else description Null),
          (''status'', String ''UNPUBLISHED''),
          (''pages'', Array [Object
             [(''slug'', String ''index''),
              (''name'', name),
              (''description'', or_else description Null),
              (''pageTheme'', Object [(''content'', Object []), (''componentPageThemeId'', Null)])]])])"

definition dist1_format_created :: "js_runtime \<Rightarrow> jsval \<Rightarrow> jsval \<Rightarrow> js_error + string" where
  "dist1_format_created rt name response =
     (if \<not> truthy response \<or> \<not> truthy (get_prop rt response ''site'')
      then Inr (''Failed to create site: '' @ param_string rt name)
      else
        (let site = get_prop rt response ''site''
         in join_parts newline
              [Inr ''Site created successfully:'',
               template [Inr ''ID: '', show_prop rt site ''id''],
               template [Inr ''Name: '', show_prop rt site ''name''],
               template [Inr ''Slug: '', show_prop rt site ''slug''],
               template [Inr ''Business Type: '', show_prop rt site ''businessType''],
               template [Inr ''Created: '', show_prop rt site ''createdAt''],
               template [Inr ''URL: https://fingertip.com/'',
                         show_prop rt site ''updatedAt'']]))"

definition create_site_failure :: "js_runtime \<Rightarrow> jsval \<Rightarrow> string" where
  "create_site_failure rt slug =
     ''Failed to create site. There might be a validation error or the slug '' @ dquote @
     param_string rt slug @ dquote @ '' might already be in use.''"

definition dist1_create_site :: handler where
  "dist1_create_site rt api args =
     (let name = lookup args ''name'';
          slug = lookup args ''slug''
      in dist_reply api (Call ''client.api.v1.sites.create'' [Object (dist1_create_site_data args)])
           (dist1_format_created rt name) (create_site_failure rt slug))"

definition format_page_details :: "js_runtime \<Rightarrow> jsval \<Rightarrow> jsval \<Rightarrow> js_error + string" where
  "format_page_details rt pageId response =
     (if \<not> truthy response \<or> \<not> truthy (get_prop rt response ''page'')
      then Inr (''Failed to retrieve page with ID: '' @ param_string rt pageId)
      else
        (let page = get_prop rt response ''page'';
             blocksInfo =
               (if truthy (get_prop rt page ''blocks'')
                then template
                       [Inr newline, Inr ''Blocks: '',
                        show_prop rt (get_prop rt page ''blocks'') ''length'']
                else Inr [])
         in case blocksInfo of
              Inl e \<Rightarrow> Inl e
            | Inr blocks \<Rightarrow>
                join_parts newline
                  [Inr ''Page Details:'',
                   template [Inr ''ID: '', show_prop rt page ''id''],
                   template [Inr ''Name: '', show_prop_or rt page ''name'' ''Unnamed''],
                   template [Inr ''Slug: '', show_prop rt page ''slug''],
                   template [Inr ''Site ID: '', show_prop rt page ''siteId''],
                   template [Inr ''Description: '', show_prop_or rt page ''description'' ''None''],
                   template [Inr ''Created: '', show_prop rt page ''createdAt''],
                   template [Inr ''Updated: '', show_prop rt page ''updatedAt''],
                   Inr blocks]))"

definition dist1_get_page :: handler where
  "dist1_get_page rt api args =
     (let pageId = lookup args ''pageId''
      in dist_reply api (Call ''client.api.v1.pages.retrieve'' [pageId])
           (format_page_details rt pageId)
           (''Failed to retrieve page with ID: '' @ param_string rt pageId @
            ''. The page may not exist or you may not have permission to access it.''))"

definition dist1_update_page_data :: "jsobject \<Rightarrow> jsobject" where
  "dist1_update_page_data args =
     (let name = lookup args ''name'';
          slug = lookup args ''slug'';
          description = lookup args ''description'';
          position = lookup args ''position'';
          updateData = [];
          updateData = set_if_defined ''name'' name updateData;
          updateData = set_if_defined ''slug'' slug updateData;
          updateData = set_if_defined ''description'' description updateData;
          updateData = set_if_defined ''position'' position updateData
      in updateData)"

definition format_page_updated :: "js_runtime \<Rightarrow> jsval \<Rightarrow> jsval \<Rightarrow> js_error + string" where
  "format_page_updated rt pageId response =
     (if \<not> truthy response \<or> \<not> truthy (get_prop rt response ''page'')
      then Inr (''Failed to update page with ID: '' @ param_string rt pageId)
      else
        (let page = get_prop rt response ''page''
         in join_parts newline
              [Inr ''Page updated successfully:'',
               template [Inr ''ID: '', show_prop rt page ''id''],
               template [Inr ''Name: '', show_prop_or rt page ''name'' ''Unnamed''],
               template [Inr ''Slug: '', show_prop rt page ''slug''],
               template [Inr ''Description: '', show_prop_or rt page ''description'' ''None''],
               template [Inr ''Updated: '', show_prop rt page ''updatedAt'']]))"

definition dist1_update_page :: handler where
  "dist1_update_page rt api args =
     (let pageId = lookup args ''pageId''
      in dist_reply api
           (Call ''client.api.v1.pages.update'' [pageId, Object (dist1_update_page_data args)])
           (format_page_updated rt pageId)
           (''Failed to update page with ID: '' @ param_string rt pageId @
            ''. The page may not exist or you may not have permission to update it.''))"

definition format_block_row :: "js_runtime \<Rightarrow> jsval \<Rightarrow> js_error + string" where
  "format_block_row rt block =
     (if nullish block then Inl (TypeError rt ''read'')
      else template
        [Inr ''ID: '', show_prop rt block ''id'', Inr newline,
         Inr ''Name: '', show_prop rt block ''name'', Inr newline,
         Inr ''Kind: '', show_prop_or rt block ''kind'' ''None'', Inr newline,
         Inr ''Is Component: '', show_prop rt block ''isComponent'', Inr newline,
         Inr ''Created: '', show_prop rt block ''createdAt'', Inr newline,
         Inr ''---''])"

definition format_blocks :: "js_runtime \<Rightarrow> jsval \<Rightarrow> jsval \<Rightarrow> js_error + string" where
  "format_blocks rt pageId response =
     (if \<not> truthy response \<or> \<not> truthy (get_prop rt response ''blocks'')
      then Inr (''No blocks found for page with ID: '' @ param_string rt pageId)
      else if get_prop rt (get_prop rt response ''blocks'') ''length'' = Number 0
      then Inr ''Page has no blocks.''
      else (case array_map rt (format_block_row rt) (get_prop rt response ''blocks'') of
              Inl e \<Rightarrow> Inl e
            | Inr formattedBlocks \<Rightarrow>
                template
                  [Inr ''Blocks for page '', Inr (param_string rt pageId), Inr '' ('',
                   show_prop rt (get_prop rt response ''blocks'') ''length'', Inr '' total):'',
                   Inr newline, Inr newline, Inr (join newline formattedBlocks)]))"

definition dist1_get_page_blocks :: handler where
  "dist1_get_page_blocks rt api args =
     (let pageId = lookup args ''pageId''
      in dist_reply api (Call ''client.api.v1.pages.blocks.list'' [pageId])
           (format_blocks rt pageId)
           (''Failed to retrieve blocks for page with ID: '' @ param_string rt pageId @
            ''. The page may not exist or you may not have permission to access it.''))"

definition format_theme_details :: "js_runtime \<Rightarrow> jsval \<Rightarrow> jsval \<Rightarrow> js_error + string" where
  "format_theme_details rt pageId response =
     (if \<not> truthy response \<or> \<not> truthy (get_prop rt response ''pageTheme'')
      then Inr (''No theme found for page with ID: '' @ param_string rt pageId)
      else
        (let theme = get_prop rt response ''pageTheme'';
             contentSummary =
               (if truthy (get_prop rt theme ''content'')
                then ''Theme has content configuration''
                else ''No content configuration'')
         in join_parts newline
              [Inr ''Theme Details:'',
               template [Inr ''ID: '', show_prop rt theme ''id''],
               template [Inr ''Is Component: '', show_prop rt theme ''isComponent''],
               template [Inr ''Component Theme ID: '',
                         show_prop_or rt theme ''componentPageThemeId'' ''None''],
               template [Inr ''Created: '', show_prop rt theme ''createdAt''],
               template [Inr ''Updated: '', show_prop rt theme ''updatedAt''],
               Inr (''Content: '' @ contentSummary)]))"

definition dist1_get_page_theme :: handler where
  "dist1_get_page_theme rt api args =
     (let pageId = lookup args ''pageId''
      in dist_reply api (Call ''client.api.v1.pages.theme.retrieve'' [pageId])
           (format_theme_details rt pageId)
           (''Failed to retrieve theme for page with ID: '' @ param_string rt pageId @
            ''. The page may not exist or you may not have permission to access it.''))"

definition dist1_update_page_theme_data :: "jsobject \<Rightarrow> jsobject" where
  "dist1_update_page_theme_data args =
     (let content = lookup args ''content'';
          isComponent = lookup args ''isComponent'';
          componentPageThemeId = lookup args ''componentPageThemeId'';
          updateData = [];
          updateData = set_if_defined ''content'' content updateData;
          updateData = set_if_defined ''isComponent'' isComponent updateData;
          updateData = set_if_defined ''componentPageThemeId'' componentPageThemeId updateData
      in updateData)"

definition format_theme_updated :: "js_runtime \<Rightarrow> jsval \<Rightarrow> jsval \<Rightarrow> js_error + string" where
  "format_theme_updated rt pageId response =
     (if \<not> truthy response \<or> \<not> truthy (get_prop rt response ''pageTheme'')
      then Inr (''Failed to update theme for page with ID: '' @ param_string rt pageId)
      else
        (let theme = get_prop rt response ''pageTheme''
         in join_parts newline
              [Inr ''Theme updated successfully:'',
               template [Inr ''ID: '', show_prop rt theme ''id''],
               template [Inr ''Is Component: '', show_prop rt theme ''isComponent''],
               template [Inr ''Component Theme ID: '',
                         show_prop_or rt theme ''componentPageThemeId'' ''None''],
               template [Inr ''Updated: '', show_prop rt theme ''updatedAt'']]))"

definition dist1_update_page_theme :: handler where
  "dist1_update_page_theme rt api args =
     (let pageId = lookup args ''pageId''
      in dist_reply api
           (Call ''client.api.v1.pages.theme.update''
              [pageId, Object (dist1_update_page_theme_data args)])
           (format_theme_updated rt pageId)
           (''Failed to update theme for page with ID: '' @ param_string rt pageId @
            ''. The page may not exist or you may not have permission to update it.''))"

definition dist1_update_block_data :: "jsobject \<Rightarrow> jsobject" where
  "dist1_update_block_data args =
     (let name = lookup args ''name'';
          content = lookup args ''content'';
          kind = lookup args ''kind'';
          isComponent = lookup args ''isComponent'';
          componentBlockId = lookup args ''componentBlockId'';
          updateData = [];
          updateData = set_if_defined ''name'' name updateData;
          updateData = set_if_defined ''content'' content updateData;
          updateData = set_if_defined ''kind'' kind updateData;
          updateData = set_if_defined ''isComponent'' isComponent updateData;
          updateData = set_if_defined ''componentBlockId'' componentBlockId updateData
      in updateData)"

definition format_block_updated :: "js_runtime \<Rightarrow> jsval \<Rightarrow> jsval \<Rightarrow> js_error + string" where
  "format_block_updated rt blockId response =
     (if \<not> truthy response \<or> \<not> truthy (get_prop rt response ''block'')
      then Inr (''Failed to update block with ID: '' @ param_string rt blockId)
      else
        (let block = get_prop rt response ''block''
         in join_parts newline
              [Inr ''Block updated successfully:'',
               template [Inr ''ID: '', show_prop rt block ''id''],
               template [Inr ''Name: '', show_prop rt block ''name''],
               template [Inr ''Page ID: '', show_prop rt block ''pageId''],
               template [Inr ''Kind: '', show_prop_or rt block ''kind'' ''None''],
               template [Inr ''Is Component: '', show_prop rt block ''isComponent''],
               template [Inr ''Component Block ID: '',
                         show_prop_or rt block ''componentBlockId'' ''None''],
               template [Inr ''Updated: '', show_prop rt block ''updatedAt'']]))"

definition dist1_update_block :: handler where
  "dist1_update_block rt api args =
     (let blockId = lookup args ''blockId''
      in dist_reply api
           (Call ''client.api.v1.blocks.update'' [blockId, Object (dist1_update_block_data args)])
           (format_block_updated rt blockId)
           (''Failed to update block with ID: '' @ param_string rt blockId @
            ''. The block may not exist or you may not have permission to update it.''))"

definition dist1_tools :: "(string \<times> handler) list" where
  "dist1_tools =
     [(''get-sites'', dist1_get_sites),
      (''get-site'', dist1_get_site),
      (''create-site'', dist1_create_site),
      (''get-page'', dist1_get_page),
      (''update-page'', dist1_update_page),
      (''get-page-blocks'', dist1_get_page_blocks),
      (''get-page-theme'', dist1_get_page_theme),
      (''update-page-theme'', dist1_update_page_theme),
      (''update-block'', dist1_update_block)]"

subsection \<open>Second program (index.js, lines 666 to 877)\<close>

definition dist2_get_sites :: handler where
  "dist2_get_sites rt api args =
     (let pageSize = lookup args ''pageSize'';
          cursor = lookup args ''cursor'';
          params = [];
          params = (if truthy pageSize
                    then AList.update ''pageSize'' (String (param_string rt pageSize)) params
                    else params);
          params = set_if_truthy ''cursor'' cursor params
      in dist_reply api (Call ''client.api.v1.sites.list'' [Object params]) (format_sites rt)
           ''Failed to retrieve sites. Please check your API key and try again.'')"

definition dist2_get_site :: handler where
  "dist2_get_site rt api args =
     (let siteId = lookup args ''siteId''
      in dist_reply api (Call ''client.api.v1.sites.retrieve'' [siteId])
           (format_site_details rt siteId)
           (''Failed to retrieve site with ID: '' @ param_string rt siteId @
            ''. The site may not exist or you may not have permission to access it.''))"

definition dist2_create_site_data :: "jsobject \<Rightarrow> jsobject" where
  "dist2_create_site_data args =
     (let name = lookup args ''name'';
          slug = lookup args ''slug'';
          businessType = lookup args ''businessType'';
          description = lookup args ''description'';
          status = (if lookup args ''status'' = Undefined then String ''ENABLED''
                    else lookup args ''status'')
      in [(''name'', name),
          (''slug'', slug),
          (''businessType'', businessType),
          (''description'', or_else description Null),
          (''status'', status),
          (''pages'', Array [Object
             [(''slug'', String ''home''),
              (''name'', String ''Home''),
              (''pageTheme'', Object
                 [(''content'', Null),
                  (''isComponent'', Bool False),
                  (''componentPageThemeId'', Null)]),
              (''blocks'', Array [])]])])"

definition dist2_format_created :: "js_runtime \<Rightarrow> jsval \<Rightarrow> jsval \<Rightarrow> js_error + string" where
  "dist2_format_created rt name response =
     (if \<not> truthy response \<or> \<not> truthy (get_prop rt response ''site'')
      then Inr (''Failed to create site: '' @ param_string rt name)
      else
        (let site = get_prop rt response ''site''
         in join_parts newline
              [Inr ''Site created successfully:'',
               template [Inr ''ID: '', show_prop rt site ''id''],
               template [Inr ''Name: '', show_prop rt site ''name''],
               template [Inr ''Slug: '', show_prop rt site ''slug''],
               template [Inr ''Business Type: '', show_prop rt site ''businessType''],
               template [Inr ''Status: '', show_prop rt site ''status''],
               template [Inr ''Created: '', show_prop rt site ''createdAt'']]))"

definition dist2_create_site :: handler where
  "dist2_create_site rt api args =
     (let name = lookup args ''name'';
          slug = lookup args ''slug''
      in dist_reply api (Call ''client.api.v1.sites.create'' [Object (dist2_create_site_data args)])
           (dist2_format_created rt name) (create_site_failure rt slug))"

definition dist2_tools :: "(string \<times> handler) list" where
  "dist2_tools =
     [(''get-sites'', dist2_get_sites),
      (''get-site'', dist2_get_site),
      (''create-site'', dist2_create_site)]"

section \<open>The five programs and their tool tables\<close>

text \<open>
  The sources hold five versions of the server: \<open>Src1\<close>, \<open>Src2\<close> and
  \<open>Src3\<close> are the three programs of src/unnamed/part\_000 (lines 1 to 391, 393 to 899
  and 900 to 1370), \<open>Dist1\<close> and \<open>Dist2\<close> the two of src/dist/index.js (lines 1
  to 558 and 666 to 877).
\<close>

datatype program = Src1 | Src2 | Src3 | Dist1 | Dist2

fun tools :: "program \<Rightarrow> (string \<times> handler) list" where
  "tools Src1 = src1_tools"
| "tools Src2 = src2_tools"
| "tools Src3 = src3_tools"
| "tools Dist1 = dist1_tools"
| "tools Dist2 = dist2_tools"

fun create_site :: "program \<Rightarrow> handler" where
  "create_site Src1 = src1_create_site"
| "create_site Src2 = src2_create_site"
| "create_site Src3 = src3_create_site"
| "create_site Dist1 = dist1_create_site"
| "create_site Dist2 = dist2_create_site"

text \<open>
  The handlers whose schema declares \<open>content\<close> as \<open>z.string().optional()\<close>, a
  JSON document in a string.
\<close>

definition content_string_tools :: "handler list" where
  "content_string_tools =
     [src2_update_page_theme, src2_update_block, src2_create_block,
      src3_create_block, src3_update_page_theme, src3_update_block]"

text \<open>
  The update tools: the handler, the name of its identifier parameter, the optional
  parameters its schema declares, and whether \<open>content\<close> is a string to be parsed.
\<close>

record update_tool =
  run :: handler
  id_param :: string
  optional_params :: "string list"
  content_is_string :: bool

definition update_tools :: "update_tool list" where
  "update_tools =
     [\<lparr>run = src1_update_page, id_param = ''pageId'',
       optional_params = [''name'', ''slug'', ''description'', ''position''],
       content_is_string = False\<rparr>,
      \<lparr>run = src1_update_page_theme, id_param = ''pageId'',
       optional_params = [''content'', ''isComponent'', ''componentPageThemeId''],
       content_is_string = False\<rparr>,
      \<lparr>run = src1_update_block, id_param = ''blockId'',
       optional_params = [''name'', ''content'', ''kind'', ''isComponent'', ''componentBlockId''],
       content_is_string = False\<rparr>,
      \<lparr>run = src2_update_page, id_param = ''pageId'',
       optional_params = [''name'', ''description'', ''position''],
       content_is_string = False\<rparr>,
      \<lparr>run = src2_update_page_theme, id_param = ''pageId'',
       optional_params = [''content''],
       content_is_string = True\<rparr>,
      \<lparr>run = src2_update_block, id_param = ''blockId'',
       optional_params = [''name'', ''content'', ''kind''],
       content_is_string = True\<rparr>,
      \<lparr>run = src3_update_page, id_param = ''pageId'',
       optional_params = [''name'', ''description'', ''position'', ''slug'', ''bannerMedia'',
                          ''logoMedia'', ''socialIcons''],
       content_is_string = False\<rparr>,
      \<lparr>run = src3_update_page_theme, id_param = ''pageId'',
       optional_params = [''content'', ''isComponent'', ''componentPageThemeId''],
       content_is_string = True\<rparr>,
      \<lparr>run = src3_update_block, id_param = ''blockId'',
       optional_params = [''name'', ''content'', ''kind'', ''isComponent'', ''componentBlockId''],
       content_is_string = True\<rparr>,
      \<lparr>run = dist1_update_page, id_param = ''pageId'',
       optional_params = [''name'', ''slug'', ''description'', ''position''],
       content_is_string = False\<rparr>,
      \<lparr>run = dist1_update_page_theme, id_param = ''pageId'',
       optional_params = [''content'', ''isComponent'', ''componentPageThemeId''],
       content_is_string = False\<rparr>,
      \<lparr>run = dist1_update_block, id_param = ''blockId'',
       optional_params = [''name'', ''content'', ''kind'', ''isComponent'', ''componentBlockId''],
       content_is_string = False\<rparr>]"

definition update_block_tools :: "handler list" where
  "update_block_tools = [src1_update_block, src2_update_block, src3_update_block, dist1_update_block]"

text \<open>The request body of a call: the object passed as its last argument.\<close>

fun request_body :: "request \<Rightarrow> jsobject option" where
  "request_body (Call callee []) = None"
| "request_body (Call callee (a # as)) =
     (case last (a # as) of Object body \<Rightarrow> Some body | _ \<Rightarrow> None)"

text \<open>
  The text a \<open>catch\<close> block prints after \<open>Error: \<close>: the string form of
  \<open>getErrorMessage(error)\<close> in the Axios server and of \<open>error.message\<close> in the two
  servers that call the client, or the exception that printing it throws.
\<close>

fun extracted_message :: "program \<Rightarrow> js_runtime \<Rightarrow> js_error \<Rightarrow> js_error + string" where
  "extracted_message Src3 rt e =
     (case getErrorMessage rt e of Inl e' \<Rightarrow> Inl e' | Inr m \<Rightarrow> to_string rt m)"
| "extracted_message p rt e =
     (case error_message rt e of Inl e' \<Rightarrow> Inl e' | Inr m \<Rightarrow> to_string rt m)"

text \<open>
  The defaults the specification documents for a new site (its section 4.2): the status
  \<open>UNPUBLISHED\<close> and the index page \<open>index\<close>, or \<open>ENABLED\<close> and \<open>home\<close>
  in the later program.
\<close>

fun documented_status :: "program \<Rightarrow> string" where
  "documented_status Dist2 = ''ENABLED''"
| "documented_status p = ''UNPUBLISHED''"

fun documented_index_slug :: "program \<Rightarrow> string" where
  "documented_index_slug Dist2 = ''home''"
| "documented_index_slug p = ''index''"

text \<open>
  What an update leaves alone, for one key \<open>k\<close> and one value \<open>v\<close>: a key that is
  not in the arguments is not in the body, and a declared parameter that was given comes
  out with the value given, unless it is a \<open>content\<close> that the handler parses.
\<close>

definition frame :: "jsobject \<Rightarrow> jsobject \<Rightarrow> string list \<Rightarrow> bool \<Rightarrow> string \<Rightarrow> jsval \<Rightarrow> bool" where
  "frame args body ps parsed k v =
     ((map_of args k = None \<longrightarrow> map_of body k = None) \<and>
      (k \<in> set ps \<and> map_of args k = Some v \<and> v \<noteq> Undefined \<and>
       \<not> (parsed \<and> k = ''content'') \<longrightarrow> map_of body k = Some v))"

section \<open>The declared schemas and the validation before a handler runs\<close>

text \<open>
  The schema that each \<open>server.tool\<close> registration passes, combinator by combinator:
  \<open>z.string()\<close>, \<open>z.string().uuid()\<close>, \<open>z.number()\<close>, \<open>z.coerce.number()\<close>,
  \<open>z.boolean()\<close>, \<open>z.any()\<close>, \<open>z.unknown()\<close>, \<open>z.enum\<close>, \<open>z.array\<close>,
  \<open>z.object\<close>, \<open>z.record\<close>, \<open>.optional()\<close>, \<open>.nullable()\<close> and
  \<open>.default(v)\<close>. The descriptions are left out.
\<close>

datatype zod =
    ZString
  | ZUuid
  | ZNumber
  | ZCoerceNumber
  | ZBoolean
  | ZAny
  | ZUnknown
  | ZEnum "string list"
  | ZArray zod
  | ZObject "(string \<times> zod) list"
  | ZRecord zod
  | ZOptional zod
  | ZNullable zod
  | ZDefault zod jsval

type_synonym schema = "(string \<times> zod) list"

definition uuid_param :: "string \<Rightarrow> string \<times> zod" where
  "uuid_param k = (k, ZUuid)"

definition opt :: "string \<Rightarrow> zod \<Rightarrow> string \<times> zod" where
  "opt k t = (k, ZOptional t)"

definition site_status :: zod where
  "site_status = ZEnum [''EMPTY'', ''UNPUBLISHED'', ''PREVIEW'', ''SOFT_CLAIM'', ''ENABLED'', ''DEMO'']"

definition src1_schemas :: "(string \<times> schema) list" where
  "src1_schemas =
     [(''get-sites'', [opt ''cursor'' ZString, opt ''search'' ZString]),
      (''get-site'', [uuid_param ''siteId'']),
      (''create-site'',
         [(''name'', ZString), (''slug'', ZString), (''businessType'', ZString),
          opt ''description'' ZString]),
      (''get-page'', [uuid_param ''pageId'']),
      (''update-page'',
         [uuid_param ''pageId'', opt ''name'' ZString, opt ''slug'' ZString,
          opt ''description'' ZString, opt ''position'' ZNumber]),
      (''get-page-blocks'', [uuid_param ''pageId'']),
      (''get-page-theme'', [uuid_param ''pageId'']),
      (''update-page-theme'',
         [uuid_param ''pageId'', opt ''content'' ZAny, opt ''isComponent'' ZBoolean,
          opt ''componentPageThemeId'' (ZNullable ZUuid)]),
      (''update-block'',
         [uuid_param ''blockId'', opt ''name'' ZString, opt ''content'' ZAny,
          opt ''kind'' ZString, opt ''isComponent'' ZBoolean,
          opt ''componentBlockId'' (ZNullable ZUuid)])]"

definition src2_schemas :: "(string \<times> schema) list" where
  "src2_schemas =
     [(''get-sites'',
         [opt ''cursor'' ZString, opt ''search'' ZString, (''pageSize'', ZCoerceNumber),
          opt ''workspaceId'' ZUuid, opt ''sortBy'' (ZEnum [''createdAt'', ''updatedAt'']),
          opt ''sortDirection'' (ZEnum [''asc'', ''desc''])]),
      (''get-site'', [uuid_param ''siteId'']),
      (''create-site'',
         [(''name'', ZString), (''slug'', ZString), (''businessType'', ZString),
          opt ''description'' ZString]),
      (''get-page'', [uuid_param ''pageId'']),
      (''update-page'',
         [uuid_param ''pageId'', opt ''name'' ZString, opt ''description'' ZString,
          opt ''position'' ZNumber]),
      (''get-page-blocks'', [uuid_param ''pageId'']),
      (''get-page-theme'', [uuid_param ''pageId'']),
      (''update-page-theme'', [uuid_param ''pageId'', opt ''content'' ZString]),
      (''update-block'',
         [uuid_param ''blockId'', opt ''name'' ZString, opt ''content'' ZString,
          opt ''kind'' ZString]),
      (''create-block'',
         [uuid_param ''pageId'', (''name'', ZString), opt ''content'' ZString,
          (''kind'', ZString), (''isComponent'', ZDefault (ZOptional ZBoolean) (Bool False)),
          (''componentBlockId'', ZNullable (ZOptional ZUuid))])]"

definition src3_page_schema :: zod where
  "src3_page_schema =
     ZObject
       [(''slug'', ZString),
        (''name'', ZString),
        opt ''description'' ZString,
        (''pageTheme'', ZObject
           [opt ''content'' (ZRecord ZUnknown),
            opt ''isComponent'' ZBoolean,
            opt ''componentPageThemeId'' (ZNullable ZUuid)]),
        opt ''blocks'' (ZArray (ZObject
           [(''name'', ZString),
            opt ''content'' (ZRecord ZUnknown),
            (''kind'', ZString),
            opt ''isComponent'' ZBoolean,
            (''componentBlockId'', ZNullable ZUuid)]))]"

definition src3_schemas :: "(string \<times> schema) list" where
  "src3_schemas =
     [(''ping'', []),
      (''get-sites'',
         [opt ''cursor'' ZString, opt ''search'' ZString, opt ''pageSize'' ZString,
          opt ''workspaceId'' ZUuid, opt ''statuses'' (ZArray ZString),
          opt ''sortBy'' (ZEnum [''createdAt'', ''updatedAt'']),
          opt ''sortDirection'' (ZEnum [''asc'', ''desc''])]),
      (''get-site'', [uuid_param ''siteId'']),
      (''create-site'',
         [(''name'', ZString), (''slug'', ZString), (''businessType'', ZString),
          opt ''description'' ZString, opt ''status'' site_status,
          (''pages'', ZArray src3_page_schema)]),
      (''get-page'', [uuid_param ''pageId'']),
      (''update-page'',
         [uuid_param ''pageId'', opt ''name'' ZString, opt ''description'' ZString,
          opt ''position'' ZNumber, opt ''slug'' ZString,
          opt ''bannerMedia'' (ZRecord ZUnknown), opt ''logoMedia'' (ZRecord ZUnknown),
          opt ''socialIcons'' (ZRecord ZUnknown)]),
      (''get-page-blocks'', [uuid_param ''pageId'']),
      (''create-block'',
         [uuid_param ''pageId'', (''name'', ZString), opt ''content'' ZString,
          (''kind'', ZString), opt ''isComponent'' ZBoolean,
          opt ''componentBlockId'' (ZNullable ZUuid)]),
      (''get-page-theme'', [uuid_param ''pageId'']),
      (''update-page-theme'',
         [uuid_param ''pageId'', opt ''content'' ZString, opt ''isComponent'' ZBoolean,
          opt ''componentPageThemeId'' (ZNullable ZUuid)]),
      (''get-block'', [uuid_param ''blockId'']),
      (''update-block'',
         [uuid_param ''blockId'', opt ''name'' ZString, opt ''content'' ZString,
          opt ''kind'' ZString, opt ''isComponent'' ZBoolean,
          opt ''componentBlockId'' (ZNullable ZUuid)]),
      (''delete-block'', [uuid_param ''blockId''])]"

definition dist1_schemas :: "(string \<times> schema) list" where
  "dist1_schemas =
     [(''get-sites'', [opt ''pageSize'' ZNumber, opt ''cursor'' ZString, opt ''search'' ZString]),
      (''get-site'', [uuid_param ''siteId'']),
      (''create-site'',
         [(''name'', ZString), (''slug'', ZString), (''businessType'', ZString),
          opt ''description'' ZString]),
      (''get-page'', [uuid_param ''pageId'']),
      (''update-page'',
         [uuid_param ''pageId'', opt ''name'' ZString, opt ''slug'' ZString,
          opt ''description'' ZString, opt ''position'' ZNumber]),
      (''get-page-blocks'', [uuid_param ''pageId'']),
      (''get-page-theme'', [uuid_param ''pageId'']),
      (''update-page-theme'',
         [uuid_param ''pageId'', opt ''content'' ZAny, opt ''isComponent'' ZBoolean,
          opt ''componentPageThemeId'' (ZNullable ZUuid)]),
      (''update-block'',
         [uuid_param ''blockId'', opt ''name'' ZString, opt ''content'' ZAny,
          opt ''kind'' ZString, opt ''isComponent'' ZBoolean,
          opt ''componentBlockId'' (ZNullable ZUuid)])]"

definition dist2_schemas :: "(string \<times> schema) list" where
  "dist2_schemas =
     [(''get-sites'', [opt ''pageSize'' ZNumber, opt ''cursor'' ZString]),
      (''get-site'', [uuid_param ''siteId'']),
      (''create-site'',
         [(''name'', ZString), (''slug'', ZString), (''businessType'', ZString),
          opt ''description'' ZString, opt ''status'' site_status])]"

fun schemas :: "program \<Rightarrow> (string \<times> schema) list" where
  "schemas Src1 = src1_schemas"
| "schemas Src2 = src2_schemas"
| "schemas Src3 = src3_schemas"
| "schemas Dist1 = dist1_schemas"
| "schemas Dist2 = dist2_schemas"

text \<open>
  Modelled from the spec: the UUID check of the zod library (not under src/). Section 4.1 of
  the specification asks for the syntax of RFC 4122, whose textual form is groups of 8, 4,
  4, 4 and 12 hexadecimal digits separated by hyphens.
\<close>

definition is_hex :: "char \<Rightarrow> bool" where
  "is_hex c = (c \<in> set ''0123456789abcdefABCDEF'')"

definition is_uuid :: "string \<Rightarrow> bool" where
  "is_uuid s =
     (map (\<lambda>c. if is_hex c then CHR ''0'' else c) s = ''00000000-0000-0000-0000-000000000000'')"

text \<open>
  Modelled from the spec: the check of an input against a schema, which the source leaves to
  the zod library (not under src/). Section 4.1 of the specification gives the rules: a
  UUID-typed field must match the RFC 4122 syntax; an enum field must be one of its
  literals; a coerced number accepts a number or a numeric string (which strings are numeric
  is the parameter \<open>numeric\<close>); an optional field may be absent; every other field must
  have the declared shape.
\<close>

fun accepts :: "(string \<Rightarrow> bool) \<Rightarrow> zod \<Rightarrow> jsval \<Rightarrow> bool" where
  "accepts numeric ZString v = (case v of String s \<Rightarrow> True | _ \<Rightarrow> False)"
| "accepts numeric ZUuid v = (case v of String s \<Rightarrow> is_uuid s | _ \<Rightarrow> False)"
| "accepts numeric ZNumber v = (case v of Number n \<Rightarrow> True | _ \<Rightarrow> False)"
| "accepts numeric ZCoerceNumber v =
     (case v of Number n \<Rightarrow> True | String s \<Rightarrow> numeric s | _ \<Rightarrow> False)"
| "accepts numeric ZBoolean v = (case v of Bool b \<Rightarrow> True | _ \<Rightarrow> False)"
| "accepts numeric ZAny v = True"
| "accepts numeric ZUnknown v = True"
| "accepts numeric (ZEnum vs) v = (case v of String s \<Rightarrow> s \<in> set vs | _ \<Rightarrow> False)"
| "accepts numeric (ZArray t) v =
     (case v of Array xs \<Rightarrow> list_all (accepts numeric t) xs | _ \<Rightarrow> False)"
| "accepts numeric (ZObject fs) v =
     (case v of
        Object kvs \<Rightarrow> list_all (\<lambda>f. accepts numeric (snd f) (lookup kvs (fst f))) fs
      | _ \<Rightarrow> False)"
| "accepts numeric (ZRecord t) v =
     (case v of Object kvs \<Rightarrow> list_all (\<lambda>p. accepts numeric t (snd p)) kvs | _ \<Rightarrow> False)"
| "accepts numeric (ZOptional t) v = (v = Undefined \<or> accepts numeric t v)"
| "accepts numeric (ZNullable t) v = (v = Null \<or> accepts numeric t v)"
| "accepts numeric (ZDefault t d) v = (v = Undefined \<or> accepts numeric t v)"

text \<open>
  Modelled from the spec: the check of a whole argument object, parameter by parameter of
  the tool's schema (zod's object parser, not under src/).
\<close>

definition validate :: "(string \<Rightarrow> bool) \<Rightarrow> schema \<Rightarrow> jsobject \<Rightarrow> bool" where
  "validate numeric sch args =
     list_all (\<lambda>f. accepts numeric (snd f) (lookup args (fst f))) sch"

text \<open>
  Modelled from the spec: what the Model Context Protocol server (not under src/) does with
  a tool call before the registered handler runs. By section 4.1 of the specification a
  validation failure short-circuits the pipeline and produces the uniform error envelope of
  section 4.4, a text block \<open>Error: \<close> plus a message, without any upstream call. The
  wording of the message is the parameter \<open>describe\<close>.
\<close>

definition call_tool :: "(string \<Rightarrow> bool) \<Rightarrow> (schema \<Rightarrow> jsobject \<Rightarrow> string) \<Rightarrow> schema \<Rightarrow> handler \<Rightarrow> handler" where
  "call_tool numeric describe sch h rt api args =
     (if validate numeric sch args then h rt api args
      else (Returns (text_content (''Error: '' @ describe sch args)), []))"

section \<open>Concrete inputs\<close>

text \<open>
  A runtime for concrete examples. Its \<open>JSON_parse\<close> knows two JSON documents, on which
  it agrees with \<open>JSON.parse\<close>, and is only applied to those and to texts that are not
  JSON; the printing functions return placeholders.
\<close>

definition test_runtime :: js_runtime where
  "test_runtime =
     \<lparr>JSON_parse = (\<lambda>s. if s = ''null'' then Inr Null
                         else if s = ''{}'' then Inr (Object [])
                         else Inl ''Unexpected token''),
      JSON_stringify = (\<lambda>v. ''<json>''),
      JSON_stringify_indent = (\<lambda>v. ''<json>''),
      Number_toString = (\<lambda>n. ''<number>''),
      String_length = length,
      TypeError_message = (\<lambda>operation. ''Cannot '' @ operation)\<rparr>"

definition always :: "settled \<Rightarrow> transport" where
  "always s = (\<lambda>req. s)"

definition some_id :: string where
  "some_id = ''11111111-1111-1111-1111-111111111111''"

section \<open>Auxiliary facts\<close>

lemma map_of_omit: "map_of (omit ks obj) k = (if k \<in> set ks then None else map_of obj k)"
  unfolding omit_def by (induction obj) auto

lemma lookup_omit: "lookup (omit ks obj) k = (if k \<in> set ks then Undefined else lookup obj k)"
  by (simp add: lookup_def map_of_omit)

lemma omit_omit: "set ks \<subseteq> set ks' \<Longrightarrow> omit ks' (omit ks obj) = omit ks' obj"
  unfolding omit_def by (induction obj) auto

lemma snd_axios_reply: "snd (axios_reply rt api req) = [req]"
  by (simp add: axios_reply_def split: settled.split)

lemma snd_sdk_reply: "snd (sdk_reply rt f api req) = [req]"
  by (simp add: sdk_reply_def split: settled.split)

lemma snd_dist_reply: "snd (dist_reply api req fmt failure) = [req]"
  by (simp add: dist_reply_def split: settled.split sum.split)

lemma param_string_String: "param_string rt (String s) = s"
  by (simp add: param_string_def)

lemma to_strings_cong:
  "(\<And>x. x \<in> set xs \<Longrightarrow> to_string rt' x = to_string rt x) \<Longrightarrow>
   to_strings rt' xs = to_strings rt xs"
  by (induction xs) (simp_all split: sum.split)

lemma to_string_parse: "to_string (rt\<lparr>JSON_parse := p\<rparr>) v = to_string rt v"
proof (induction v)
  case (Array xs)
  have "to_strings (rt\<lparr>JSON_parse := p\<rparr>) xs = to_strings rt xs"
    by (rule to_strings_cong) (rule Array)
  then show ?case by simp
qed (simp_all add: TypeError_def)

lemma param_string_parse: "param_string (rt\<lparr>JSON_parse := p\<rparr>) v = param_string rt v"
  by (simp add: param_string_def to_string_parse)

lemma get_prop_parse: "get_prop (rt\<lparr>JSON_parse := p\<rparr>) v k = get_prop rt v k"
  by (cases v) simp_all

lemma getErrorMessage_parse:
  "getErrorMessage (rt\<lparr>JSON_parse := p\<rparr>) e = getErrorMessage rt e"
  by (cases e) (simp_all add: get_prop_parse to_string_parse split: option.split)

lemma axios_reply_parse:
  "axios_reply (rt\<lparr>JSON_parse := p\<rparr>) api req = axios_reply rt api req"
  by (cases "api req")
     (simp_all add: axios_reply_def axios_catch_def getErrorMessage_parse to_string_parse
        split: sum.split)

lemma sdk_reply_parse:
  "sdk_reply (rt\<lparr>JSON_parse := p\<rparr>) f api req = sdk_reply rt f api req"
proof -
  have "error_message (rt\<lparr>JSON_parse := p\<rparr>) e = error_message rt e" for e
    by (cases e) (simp_all add: get_prop_parse TypeError_def)
  then show ?thesis
    by (cases "api req") (simp_all add: sdk_reply_def sdk_catch_def to_string_parse split: sum.split)
qed

lemmas content_handler_defs =
  src2_update_page_theme_def src2_update_block_def src2_create_block_def
  src3_create_block_def src3_update_page_theme_def src3_update_block_def

lemma lookup_absent: "map_of obj k = None \<Longrightarrow> lookup obj k = Undefined"
  by (simp add: lookup_def)

lemma lookup_present: "map_of obj k = Some v \<Longrightarrow> lookup obj k = v"
  by (simp add: lookup_def)

lemma map_of_set_if_defined:
  "map_of (set_if_defined k' v obj) k =
     (if k = k' \<and> v \<noteq> Undefined then Some v else map_of obj k)"
  by (simp add: set_if_defined_def update_conv')

lemmas src1_handler_defs =
  src1_get_sites_def src1_get_site_def src1_create_site_def src1_get_page_def
  src1_update_page_def src1_get_page_blocks_def src1_get_page_theme_def
  src1_update_page_theme_def src1_update_block_def

lemmas src2_handler_defs =
  src2_get_sites_def src2_get_site_def src2_create_site_def src2_get_page_def
  src2_update_page_def src2_get_page_blocks_def src2_get_page_theme_def
  src2_update_page_theme_def src2_update_block_def src2_create_block_def

lemmas src3_handler_defs =
  src3_ping_def src3_get_sites_def src3_get_site_def src3_create_site_def src3_get_page_def
  src3_update_page_def src3_get_page_blocks_def src3_create_block_def src3_get_page_theme_def
  src3_update_page_theme_def src3_get_block_def src3_update_block_def src3_delete_block_def

lemmas dist1_handler_defs =
  dist1_get_sites_def dist1_get_site_def dist1_create_site_def dist1_get_page_def
  dist1_update_page_def dist1_get_page_blocks_def dist1_get_page_theme_def
  dist1_update_page_theme_def dist1_update_block_def

lemmas dist2_handler_defs =
  dist2_get_sites_def dist2_get_site_def dist2_create_site_def

section \<open>Content given as a JSON string\<close>

text \<open>
  Claim C4. For every tool that takes \<open>content\<close> as a string (update-block,
  update-page-theme and create-block of the second and third program of part\_000) and every
  input whose content string is valid JSON, the handler makes exactly one upstream call, and
  the \<open>content\<close> of its body is the value \<open>JSON.parse\<close> returns for that string.
  A JSON text is never empty, which is the third hypothesis.
\<close>

theorem content_string_is_parsed:
  assumes "h \<in> set content_string_tools"
    and "lookup args ''content'' = String s"
    and "s \<noteq> []"
    and "JSON_parse rt s = Inr v"
  shows "\<exists>body. map request_body (snd (h rt api args)) = [Some body] \<and>
                map_of body ''content'' = Some v"
  using assms unfolding content_string_tools_def
  by (auto simp: content_handler_defs Let_def snd_axios_reply snd_sdk_reply src2_reply_def
      update_conv' param_string_String)

theorem content_string_is_parsed_witness:
  "src3_update_block \<in> set content_string_tools \<and>
   lookup [(''blockId'', String some_id), (''content'', String ''{}'')] ''content'' = String ''{}'' \<and>
   ''{}'' \<noteq> [] \<and>
   JSON_parse test_runtime ''{}'' = Inr (Object []) \<and>
   (\<exists>body. map request_body
              (snd (src3_update_block test_runtime (always (Fulfilled Null))
                      [(''blockId'', String some_id), (''content'', String ''{}'')])) = [Some body] \<and>
           map_of body ''content'' = Some (Object []))"
proof -
  have m: "src3_update_block \<in> set content_string_tools"
    by (simp add: content_string_tools_def)
  have c: "lookup [(''blockId'', String some_id), (''content'', String ''{}'')] ''content''
           = String ''{}''"
    by (simp add: lookup_def)
  have n: "''{}'' \<noteq> []" by simp
  have j: "JSON_parse test_runtime ''{}'' = Inr (Object [])"
    by (simp add: test_runtime_def)
  from content_string_is_parsed [OF m c n j] m c n j show ?thesis by blast
qed

text \<open>
  Claim C5. For every tool that takes \<open>content\<close> as a string and every input whose
  content string is not empty and is rejected by \<open>JSON.parse\<close>, the handler returns the
  envelope that reports the parse error and makes no upstream call.
\<close>

theorem malformed_content_is_local_error:
  assumes "h \<in> set content_string_tools"
    and "lookup args ''content'' = String s"
    and "s \<noteq> []"
    and "JSON_parse rt s = Inl m"
  shows "h rt api args = (Returns (text_content (parse_error_text m)), [])"
  using assms unfolding content_string_tools_def
  by (auto simp: content_handler_defs Let_def param_string_String)

theorem malformed_content_is_local_error_witness:
  "src2_create_block \<in> set content_string_tools \<and>
   lookup [(''pageId'', String some_id), (''content'', String ''{not json'')] ''content''
     = String ''{not json'' \<and>
   ''{not json'' \<noteq> [] \<and>
   JSON_parse test_runtime ''{not json'' = Inl ''Unexpected token'' \<and>
   src2_create_block test_runtime (always (Fulfilled Null))
     [(''pageId'', String some_id), (''content'', String ''{not json'')]
     = (Returns (text_content (parse_error_text ''Unexpected token'')), [])"
proof -
  have m: "src2_create_block \<in> set content_string_tools"
    by (simp add: content_string_tools_def)
  have c: "lookup [(''pageId'', String some_id), (''content'', String ''{not json'')] ''content''
           = String ''{not json''"
    by (simp add: lookup_def)
  have n: "''{not json'' \<noteq> []" by simp
  have j: "JSON_parse test_runtime ''{not json'' = Inl ''Unexpected token''"
    by (simp add: test_runtime_def)
  from malformed_content_is_local_error [OF m c n j] m c n j show ?thesis by blast
qed

text \<open>
  Claim C10. For every tool that takes \<open>content\<close> as a string, an input whose content
  is the empty string is handled exactly as the same input without \<open>content\<close>: the
  body of the one upstream call has no \<open>content\<close> key, and the result does not depend
  on \<open>JSON.parse\<close>, which is never called, so no parse error is reported.
\<close>

theorem empty_content_is_absent:
  assumes "h \<in> set content_string_tools"
    and "lookup args ''content'' = String []"
  shows "h rt api args = h rt api (omit [''content''] args) \<and>
         (\<exists>body. map request_body (snd (h rt api args)) = [Some body] \<and>
                 map_of body ''content'' = None) \<and>
         (\<forall>p. h (rt\<lparr>JSON_parse := p\<rparr>) api args = h rt api args)"
  using assms unfolding content_string_tools_def
  by (auto simp: content_handler_defs Let_def snd_axios_reply snd_sdk_reply src2_reply_def
      update_conv' lookup_omit omit_omit map_of_omit axios_reply_parse sdk_reply_parse
      param_string_parse)

theorem empty_content_is_absent_witness:
  "src3_update_page_theme \<in> set content_string_tools \<and>
   lookup [(''pageId'', String some_id), (''content'', String [])] ''content'' = String [] \<and>
   src3_update_page_theme test_runtime (always (Fulfilled Null))
       [(''pageId'', String some_id), (''content'', String [])]
     = src3_update_page_theme test_runtime (always (Fulfilled Null))
         (omit [''content''] [(''pageId'', String some_id), (''content'', String [])]) \<and>
   (\<exists>body. map request_body
             (snd (src3_update_page_theme test_runtime (always (Fulfilled Null))
                     [(''pageId'', String some_id), (''content'', String [])])) = [Some body] \<and>
           map_of body ''content'' = None) \<and>
   (\<forall>p. src3_update_page_theme (test_runtime\<lparr>JSON_parse := p\<rparr>) (always (Fulfilled Null))
            [(''pageId'', String some_id), (''content'', String [])]
        = src3_update_page_theme test_runtime (always (Fulfilled Null))
            [(''pageId'', String some_id), (''content'', String [])])"
proof -
  have m: "src3_update_page_theme \<in> set content_string_tools"
    by (simp add: content_string_tools_def)
  have c: "lookup [(''pageId'', String some_id), (''content'', String [])] ''content'' = String []"
    by (simp add: lookup_def)
  from empty_content_is_absent [OF m c] m c show ?thesis by blast
qed

section \<open>Every handler returns an envelope\<close>

lemma extracted_message_client:
  "p \<noteq> Src3 \<Longrightarrow> extracted_message p rt e = extracted_message Src1 rt e"
  by (cases p) simp_all

lemma axios_catch_returns:
  "extracted_message Src3 rt e = Inr s \<Longrightarrow>
   axios_catch rt e = Returns (text_content (''Error: '' @ s))"
  by (auto simp: axios_catch_def split: sum.splits)

lemma sdk_catch_returns:
  "extracted_message Src1 rt e = Inr s \<Longrightarrow>
   sdk_catch rt e = Returns (text_content (''Error: '' @ s))"
  by (auto simp: sdk_catch_def split: sum.splits)

lemma axios_reply_returns:
  assumes "\<And>req e. api req = Rejected e \<Longrightarrow> \<exists>s. extracted_message Src3 rt e = Inr s"
  shows "\<exists>s. fst (axios_reply rt api req) = Returns (text_content s)"
proof (cases "api req")
  case (Fulfilled d)
  then show ?thesis by (auto simp: axios_reply_def)
next
  case (Rejected e)
  with assms obtain s where "extracted_message Src3 rt e = Inr s" by blast
  with Rejected show ?thesis by (auto simp: axios_reply_def axios_catch_returns)
qed

lemma sdk_reply_returns:
  assumes "\<And>req e. api req = Rejected e \<Longrightarrow> \<exists>s. extracted_message Src1 rt e = Inr s"
  shows "\<exists>s. fst (sdk_reply rt f api req) = Returns (text_content s)"
proof (cases "api req")
  case (Fulfilled d)
  then show ?thesis by (auto simp: sdk_reply_def)
next
  case (Rejected e)
  with assms obtain s where "extracted_message Src1 rt e = Inr s" by blast
  with Rejected show ?thesis by (auto simp: sdk_reply_def sdk_catch_returns)
qed

lemma dist_reply_returns: "\<exists>s. fst (dist_reply api req fmt failure) = Returns (text_content s)"
  by (cases "api req") (auto simp: dist_reply_def split: sum.split)

lemma src1_returns:
  assumes "(name, h) \<in> set src1_tools"
    and "\<And>req e. api req = Rejected e \<Longrightarrow> \<exists>s. extracted_message Src1 rt e = Inr s"
  shows "\<exists>s. fst (h rt api args) = Returns (text_content s)"
  using assms(1) unfolding src1_tools_def
  by (auto simp: src1_handler_defs src1_reply_def Let_def sdk_reply_returns [OF assms(2)])

lemma src2_returns:
  assumes "(name, h) \<in> set src2_tools"
    and "\<And>req e. api req = Rejected e \<Longrightarrow> \<exists>s. extracted_message Src1 rt e = Inr s"
  shows "\<exists>s. fst (h rt api args) = Returns (text_content s)"
  using assms(1) unfolding src2_tools_def
  by (auto simp: src2_handler_defs src2_reply_def Let_def sdk_reply_returns [OF assms(2)]
      split: sum.split)

lemma src3_returns:
  assumes "(name, h) \<in> set src3_tools"
    and "\<And>req e. api req = Rejected e \<Longrightarrow> \<exists>s. extracted_message Src3 rt e = Inr s"
  shows "\<exists>s. fst (h rt api args) = Returns (text_content s)"
  using assms(1) unfolding src3_tools_def
  by (auto simp: src3_handler_defs Let_def axios_reply_returns [OF assms(2)] split: sum.split)

lemma dist1_returns:
  assumes "(name, h) \<in> set dist1_tools"
  shows "\<exists>s. fst (h rt api args) = Returns (text_content s)"
  using assms unfolding dist1_tools_def
  by (auto simp: dist1_handler_defs Let_def dist_reply_returns)

lemma dist2_returns:
  assumes "(name, h) \<in> set dist2_tools"
  shows "\<exists>s. fst (h rt api args) = Returns (text_content s)"
  using assms unfolding dist2_tools_def
  by (auto simp: dist2_handler_defs Let_def dist_reply_returns)

text \<open>
  What does hold of every registered tool of every program, for every argument object: the
  handler returns an envelope of one text block, and throws nothing, provided that in the
  three programs of part\_000 the message of every rejection of the upstream call has a
  string form. The handlers of index.js return an envelope whatever the upstream call does.
\<close>

lemma returns_when_message_prints:
  assumes "(name, h) \<in> set (tools p)"
    and "\<And>req e. p \<noteq> Dist1 \<Longrightarrow> p \<noteq> Dist2 \<Longrightarrow> api req = Rejected e \<Longrightarrow>
           \<exists>s. extracted_message p rt e = Inr s"
  shows "\<exists>s. fst (h rt api args) = Returns (text_content s)"
proof (cases p)
  case Src1
  with assms show ?thesis by (simp add: src1_returns)
next
  case Src2
  with assms(2) have "\<And>req e. api req = Rejected e \<Longrightarrow> \<exists>s. extracted_message Src1 rt e = Inr s"
    by simp
  with Src2 assms(1) show ?thesis by (simp add: src2_returns)
next
  case Src3
  with assms show ?thesis by (simp add: src3_returns)
next
  case Dist1
  with assms show ?thesis by (simp add: dist1_returns)
next
  case Dist2
  with assms show ?thesis by (simp add: dist2_returns)
qed

text \<open>
  Claim C1 says that every handler returns an envelope with a text block for every input
  and every outcome of the upstream call, and that no exception leaves a tool invocation.
  It fails on the Axios server. The upstream answers get-site with status 400 and the JSON
  body \<open>{"message":{"toString":"x"}}\<close>, so the call rejects with an
  \<open>AxiosError\<close> that carries this response. \<open>getErrorMessage\<close> returns the
  \<open>message\<close> object, the template literal of the \<open>catch\<close> block cannot convert
  it to a string, and the TypeError leaves the handler: no envelope is returned.
\<close>

theorem unprintable_message_escapes:
  "(''get-site'', src3_get_site) \<in> set (tools Src3) \<and>
   fst (src3_get_site test_runtime
          (always (Rejected (AxiosError ''Request failed with status code 400''
             (Some \<lparr>status = 400,
                    data = Object [(''message'', Object [(''toString'', String ''x'')])]\<rparr>))))
          [(''siteId'', String some_id)])
     = Throws (TypeError test_runtime ''convert'')"
  by (simp add: src3_tools_def src3_get_site_def axios_reply_def axios_catch_def Let_def
      always_def)

section \<open>The text of a failure\<close>

lemma axios_reply_rejected:
  "extracted_message Src3 rt e = Inr s \<Longrightarrow>
   fst (axios_reply rt (always (Rejected e)) req) = Returns (text_content (''Error: '' @ s))"
  by (simp add: axios_reply_def always_def axios_catch_returns)

lemma sdk_reply_rejected:
  "extracted_message Src1 rt e = Inr s \<Longrightarrow>
   fst (sdk_reply rt f (always (Rejected e)) req) = Returns (text_content (''Error: '' @ s))"
  by (simp add: sdk_reply_def always_def sdk_catch_returns)

lemma dist_reply_rejected:
  "fst (dist_reply (always (Rejected e)) req fmt failure) = Returns (text_content failure)"
  by (simp add: dist_reply_def always_def)

lemma failed_to_prefix:
  "prefix ''Failed to '' failure \<Longrightarrow>
   \<exists>t. Returns (text_content failure) = Returns (text_content t) \<and> prefix ''Failed to '' t"
  by blast

lemma src3_failure:
  assumes "(name, h) \<in> set src3_tools" and "extracted_message Src3 rt e = Inr s"
  shows "fst (h rt (always (Rejected e)) args) = Returns (text_content (''Error: '' @ s)) \<or>
         (truthy (lookup args ''content'') \<and>
          (\<exists>m. JSON_parse rt (param_string rt (lookup args ''content'')) = Inl m \<and>
               h rt (always (Rejected e)) args = (Returns (text_content (parse_error_text m)), [])))"
  using assms(1) unfolding src3_tools_def
  by (auto simp: src3_handler_defs Let_def axios_reply_rejected [OF assms(2)]
      split: sum.splits if_splits)

lemma src2_failure:
  assumes "(name, h) \<in> set src2_tools" and "extracted_message Src1 rt e = Inr s"
  shows "fst (h rt (always (Rejected e)) args) = Returns (text_content (''Error: '' @ s)) \<or>
         (truthy (lookup args ''content'') \<and>
          (\<exists>m. JSON_parse rt (param_string rt (lookup args ''content'')) = Inl m \<and>
               h rt (always (Rejected e)) args = (Returns (text_content (parse_error_text m)), [])))"
  using assms(1) unfolding src2_tools_def
  by (auto simp: src2_handler_defs src2_reply_def Let_def sdk_reply_rejected [OF assms(2)]
      split: sum.splits if_splits)

lemma src1_failure:
  assumes "(name, h) \<in> set src1_tools" and "extracted_message Src1 rt e = Inr s"
  shows "fst (h rt (always (Rejected e)) args) = Returns (text_content (''Error: '' @ s))"
  using assms(1) unfolding src1_tools_def
  by (auto simp: src1_handler_defs src1_reply_def Let_def sdk_reply_rejected [OF assms(2)])

lemma dist1_failure:
  assumes "(name, h) \<in> set dist1_tools"
  shows "\<exists>t. fst (h rt (always (Rejected e)) args) = Returns (text_content t) \<and>
             prefix ''Failed to '' t"
  using assms unfolding dist1_tools_def
  by (auto simp: dist1_handler_defs Let_def dist_reply_rejected create_site_failure_def
      intro!: failed_to_prefix)

lemma dist2_failure:
  assumes "(name, h) \<in> set dist2_tools"
  shows "\<exists>t. fst (h rt (always (Rejected e)) args) = Returns (text_content t) \<and>
             prefix ''Failed to '' t"
  using assms unfolding dist2_tools_def
  by (auto simp: dist2_handler_defs Let_def dist_reply_rejected create_site_failure_def
      intro!: failed_to_prefix)

text \<open>
  Claim C7, as amended. A tool call whose arguments fail the tool's schema is answered with
  the text \<open>Error: \<close> followed by the validation message, and its handler does not run.
  When the upstream call rejects, a handler of the three programs of part\_000 returns the
  text \<open>Error: \<close> followed by the extracted message, for every rejection whose message
  has a string form, unless its \<open>content\<close> failed to parse: then no call is made and
  the text is \<open>Error parsing content JSON: \<close> followed by the parser's message. A
  handler of the two programs of index.js returns a fixed sentence that begins with
  \<open>Failed to\<close>.
\<close>

theorem failure_texts:
  assumes "(name, h) \<in> set (tools p)"
    and "(name, sch) \<in> set (schemas p)"
  shows "(\<not> validate numeric sch args \<longrightarrow>
            call_tool numeric describe sch h rt api args
              = (Returns (text_content (''Error: '' @ describe sch args)), [])) \<and>
         ((p = Src1 \<or> p = Src2 \<or> p = Src3) \<and> extracted_message p rt e = Inr s \<longrightarrow>
            fst (h rt (always (Rejected e)) args) = Returns (text_content (''Error: '' @ s)) \<or>
            (truthy (lookup args ''content'') \<and>
             (\<exists>m. JSON_parse rt (param_string rt (lookup args ''content'')) = Inl m \<and>
                  h rt (always (Rejected e)) args
                    = (Returns (text_content (parse_error_text m)), [])))) \<and>
         (p = Dist1 \<or> p = Dist2 \<longrightarrow>
            (\<exists>t. fst (h rt (always (Rejected e)) args) = Returns (text_content t) \<and>
                 prefix ''Failed to '' t))"
proof (cases p)
  case Src1
  with assms(1) show ?thesis
    using src1_failure [of name h rt e s args] by (auto simp: call_tool_def)
next
  case Src2
  with assms(1) show ?thesis
    using src2_failure [of name h rt e s args] by (auto simp: call_tool_def)
next
  case Src3
  with assms(1) show ?thesis
    using src3_failure [of name h rt e s args] by (auto simp: call_tool_def)
next
  case Dist1
  with assms(1) show ?thesis
    using dist1_failure [of name h rt e args] by (auto simp: call_tool_def)
next
  case Dist2
  with assms(1) show ?thesis
    using dist2_failure [of name h rt e args] by (auto simp: call_tool_def)
qed

theorem failure_texts_witness:
  "(''get-site'', src3_get_site) \<in> set (tools Src3) \<and>
   (''get-site'', [uuid_param ''siteId'']) \<in> set (schemas Src3) \<and>
   \<not> validate (\<lambda>s. False) [uuid_param ''siteId''] [(''siteId'', String ''not-a-uuid'')] \<and>
   call_tool (\<lambda>s. False) (\<lambda>sch args. ''Invalid arguments'') [uuid_param ''siteId'']
       src3_get_site test_runtime (always (Fulfilled Null)) [(''siteId'', String ''not-a-uuid'')]
     = (Returns (text_content ''Error: Invalid arguments''), []) \<and>
   extracted_message Src3 test_runtime (Error ''Network Error'') = Inr ''Network Error'' \<and>
   fst (src3_get_site test_runtime (always (Rejected (Error ''Network Error'')))
          [(''siteId'', String some_id)])
     = Returns (text_content ''Error: Network Error'') \<and>
   (''get-site'', dist1_get_site) \<in> set (tools Dist1) \<and>
   (''get-site'', [uuid_param ''siteId'']) \<in> set (schemas Dist1) \<and>
   (\<exists>t. fst (dist1_get_site test_runtime (always (Rejected (Error ''Network Error'')))
               [(''siteId'', String some_id)]) = Returns (text_content t) \<and>
        prefix ''Failed to '' t)"
proof -
  have m3: "(''get-site'', src3_get_site) \<in> set (tools Src3)"
    by (simp add: src3_tools_def)
  have s3: "(''get-site'', [uuid_param ''siteId'']) \<in> set (schemas Src3)"
    by (simp add: src3_schemas_def)
  have m4: "(''get-site'', dist1_get_site) \<in> set (tools Dist1)"
    by (simp add: dist1_tools_def)
  have s4: "(''get-site'', [uuid_param ''siteId'']) \<in> set (schemas Dist1)"
    by (simp add: dist1_schemas_def)
  have v: "\<not> validate (\<lambda>s. False) [uuid_param ''siteId''] [(''siteId'', String ''not-a-uuid'')]"
    by (simp add: validate_def uuid_param_def lookup_def is_uuid_def)
  have x: "extracted_message Src3 test_runtime (Error ''Network Error'') = Inr ''Network Error''"
    by simp
  have n: "lookup [(''siteId'', String some_id)] ''content'' = Undefined"
    by (simp add: lookup_def)
  from failure_texts [OF m3 s3, of "\<lambda>s. False" "[(''siteId'', String ''not-a-uuid'')]"
      "\<lambda>sch args. ''Invalid arguments''" test_runtime "always (Fulfilled Null)"] v
  have a: "call_tool (\<lambda>s. False) (\<lambda>sch args. ''Invalid arguments'') [uuid_param ''siteId'']
             src3_get_site test_runtime (always (Fulfilled Null))
             [(''siteId'', String ''not-a-uuid'')]
           = (Returns (text_content ''Error: Invalid arguments''), [])"
    by simp
  from failure_texts [OF m3 s3, of _ "[(''siteId'', String some_id)]" _ test_runtime _
      "Error ''Network Error''" "''Network Error''"] x
  have b: "fst (src3_get_site test_runtime (always (Rejected (Error ''Network Error'')))
               [(''siteId'', String some_id)])
          = Returns (text_content ''Error: Network Error'')"
    by (simp add: n)
  from failure_texts [OF m4 s4, of _ "[(''siteId'', String some_id)]" _ test_runtime _
      "Error ''Network Error''"]
  have c: "\<exists>t. fst (dist1_get_site test_runtime (always (Rejected (Error ''Network Error'')))
               [(''siteId'', String some_id)]) = Returns (text_content t) \<and>
        prefix ''Failed to '' t"
    by simp
  from m3 s3 v a x b m4 s4 c show ?thesis by blast
qed

text \<open>
  Claim C7 as stated fails twice. When the list call rejects, get-sites of the first
  program of index.js answers with a sentence that does not begin with \<open>Error: \<close>;
  and update-block of the Axios server answers a content that is not JSON with a text that
  does not begin with \<open>Error: \<close> either.
\<close>

theorem failure_without_error_prefix:
  "fst (dist1_get_sites test_runtime (always (Rejected (Error ''Network Error''))) [])
     = Returns (text_content ''Failed to retrieve sites. Please check your API key and try again.'') \<and>
   \<not> prefix ''Error: '' ''Failed to retrieve sites. Please check your API key and try again.'' \<and>
   src3_update_block test_runtime (always (Fulfilled Null))
       [(''blockId'', String some_id), (''content'', String ''{not json'')]
     = (Returns (text_content ''Error parsing content JSON: Unexpected token''), []) \<and>
   \<not> prefix ''Error: '' ''Error parsing content JSON: Unexpected token''"
  by (simp add: dist1_get_sites_def src3_update_block_def Let_def dist_reply_rejected lookup_def
      param_string_def test_runtime_def parse_error_text_def)

text \<open>
  No report of a content that fails to parse begins with \<open>Error: \<close>.
\<close>

lemma parse_error_without_error_prefix:
  "\<not> prefix ''Error: '' (parse_error_text m)"
  by (simp add: parse_error_text_def)

section \<open>What an update sends\<close>

lemma frame_spread:
  assumes "idp \<notin> set ps"
  shows "frame args (omit [idp] args) ps parsed k v"
  using assms by (auto simp: frame_def map_of_omit)

lemma frame_parsed:
  assumes "idp \<notin> set ps"
    and "body = omit [idp, ''content''] args \<and> \<not> truthy (lookup args ''content'') \<or>
         (\<exists>w. body = AList.update ''content'' w (omit [idp, ''content''] args)) \<and>
           truthy (lookup args ''content'')"
  shows "frame args body ps True k v"
  using assms by (auto simp: frame_def map_of_omit update_conv' lookup_absent)

lemma body_src2_update_page_theme:
  assumes "map request_body (snd (src2_update_page_theme rt api args)) = [Some body]"
  shows "body = omit [''pageId'', ''content''] args \<and> \<not> truthy (lookup args ''content'') \<or>
         (\<exists>w. body = AList.update ''content'' w (omit [''pageId'', ''content''] args)) \<and>
           truthy (lookup args ''content'')"
  using assms
  by (auto simp: src2_update_page_theme_def Let_def src2_reply_def snd_sdk_reply
      split: if_splits sum.splits)

lemma body_src2_update_block:
  assumes "map request_body (snd (src2_update_block rt api args)) = [Some body]"
  shows "body = omit [''blockId'', ''content''] args \<and> \<not> truthy (lookup args ''content'') \<or>
         (\<exists>w. body = AList.update ''content'' w (omit [''blockId'', ''content''] args)) \<and>
           truthy (lookup args ''content'')"
  using assms
  by (auto simp: src2_update_block_def Let_def src2_reply_def snd_sdk_reply
      split: if_splits sum.splits)

lemma body_src3_update_page_theme:
  assumes "map request_body (snd (src3_update_page_theme rt api args)) = [Some body]"
  shows "body = omit [''pageId'', ''content''] args \<and> \<not> truthy (lookup args ''content'') \<or>
         (\<exists>w. body = AList.update ''content'' w (omit [''pageId'', ''content''] args)) \<and>
           truthy (lookup args ''content'')"
  using assms
  by (auto simp: src3_update_page_theme_def Let_def snd_axios_reply
      split: if_splits sum.splits)

lemma body_src3_update_block:
  assumes "map request_body (snd (src3_update_block rt api args)) = [Some body]"
  shows "body = omit [''blockId'', ''content''] args \<and> \<not> truthy (lookup args ''content'') \<or>
         (\<exists>w. body = AList.update ''content'' w (omit [''blockId'', ''content''] args)) \<and>
           truthy (lookup args ''content'')"
  using assms
  by (auto simp: src3_update_block_def Let_def snd_axios_reply
      split: if_splits sum.splits)
lemma map_of_set_defined_fields:
  "map_of (foldl (\<lambda>obj f. set_if_defined f (lookup args f) obj) obj0 fs) k =
     (if k \<in> set fs \<and> lookup args k \<noteq> Undefined then Some (lookup args k) else map_of obj0 k)"
  by (induction fs arbitrary: obj0) (auto simp: map_of_set_if_defined)

lemma frame_set_defined_fields:
  "frame args (foldl (\<lambda>obj f. set_if_defined f (lookup args f) obj) [] fs) fs False k v"
  by (auto simp: frame_def map_of_set_defined_fields lookup_absent lookup_present)

lemma frame_dist1_update_page:
  "frame args (dist1_update_page_data args)
     [''name'', ''slug'', ''description'', ''position''] False k v"
proof -
  have "dist1_update_page_data args =
        foldl (\<lambda>obj f. set_if_defined f (lookup args f) obj) []
          [''name'', ''slug'', ''description'', ''position'']"
    by (simp add: dist1_update_page_data_def Let_def)
  then show ?thesis by (simp only: frame_set_defined_fields)
qed

lemma frame_dist1_update_page_theme:
  "frame args (dist1_update_page_theme_data args)
     [''content'', ''isComponent'', ''componentPageThemeId''] False k v"
proof -
  have "dist1_update_page_theme_data args =
        foldl (\<lambda>obj f. set_if_defined f (lookup args f) obj) []
          [''content'', ''isComponent'', ''componentPageThemeId'']"
    by (simp add: dist1_update_page_theme_data_def Let_def)
  then show ?thesis by (simp only: frame_set_defined_fields)
qed

lemma frame_dist1_update_block:
  "frame args (dist1_update_block_data args)
     [''name'', ''content'', ''kind'', ''isComponent'', ''componentBlockId''] False k v"
proof -
  have "dist1_update_block_data args =
        foldl (\<lambda>obj f. set_if_defined f (lookup args f) obj) []
          [''name'', ''content'', ''kind'', ''isComponent'', ''componentBlockId'']"
    by (simp add: dist1_update_block_data_def Let_def)
  then show ?thesis by (simp only: frame_set_defined_fields)
qed

lemma frame_src1_update_page:
  assumes "map request_body (snd (src1_update_page rt api args)) = [Some body]"
    and "''pageId'' \<notin> set ps"
  shows "frame args body ps parsed k v"
proof -
  from assms(1) have "body = omit [''pageId''] args"
    by (simp add: src1_update_page_def Let_def src1_reply_def snd_sdk_reply)
  with assms(2) show ?thesis by (simp add: frame_spread)
qed

lemma frame_src1_update_page_theme:
  assumes "map request_body (snd (src1_update_page_theme rt api args)) = [Some body]"
    and "''pageId'' \<notin> set ps"
  shows "frame args body ps parsed k v"
proof -
  from assms(1) have "body = omit [''pageId''] args"
    by (simp add: src1_update_page_theme_def Let_def src1_reply_def snd_sdk_reply)
  with assms(2) show ?thesis by (simp add: frame_spread)
qed

lemma frame_src1_update_block:
  assumes "map request_body (snd (src1_update_block rt api args)) = [Some body]"
    and "''blockId'' \<notin> set ps"
  shows "frame args body ps parsed k v"
proof -
  from assms(1) have "body = omit [''blockId''] args"
    by (simp add: src1_update_block_def Let_def src1_reply_def snd_sdk_reply)
  with assms(2) show ?thesis by (simp add: frame_spread)
qed

lemma frame_src2_update_page:
  assumes "map request_body (snd (src2_update_page rt api args)) = [Some body]"
    and "''pageId'' \<notin> set ps"
  shows "frame args body ps parsed k v"
proof -
  from assms(1) have "body = omit [''pageId''] args"
    by (simp add: src2_update_page_def Let_def src2_reply_def snd_sdk_reply)
  with assms(2) show ?thesis by (simp add: frame_spread)
qed

lemma frame_src3_update_page:
  assumes "map request_body (snd (src3_update_page rt api args)) = [Some body]"
    and "''pageId'' \<notin> set ps"
  shows "frame args body ps parsed k v"
proof -
  from assms(1) have "body = omit [''pageId''] args"
    by (simp add: src3_update_page_def Let_def snd_axios_reply)
  with assms(2) show ?thesis by (simp add: frame_spread)
qed

lemma frame_src2_update_page_theme:
  assumes "map request_body (snd (src2_update_page_theme rt api args)) = [Some body]"
    and "''pageId'' \<notin> set ps"
  shows "frame args body ps True k v"
  using frame_parsed [OF assms(2) body_src2_update_page_theme [OF assms(1)]] .

lemma frame_src2_update_block:
  assumes "map request_body (snd (src2_update_block rt api args)) = [Some body]"
    and "''blockId'' \<notin> set ps"
  shows "frame args body ps True k v"
  using frame_parsed [OF assms(2) body_src2_update_block [OF assms(1)]] .

lemma frame_src3_update_page_theme:
  assumes "map request_body (snd (src3_update_page_theme rt api args)) = [Some body]"
    and "''pageId'' \<notin> set ps"
  shows "frame args body ps True k v"
  using frame_parsed [OF assms(2) body_src3_update_page_theme [OF assms(1)]] .

lemma frame_src3_update_block:
  assumes "map request_body (snd (src3_update_block rt api args)) = [Some body]"
    and "''blockId'' \<notin> set ps"
  shows "frame args body ps True k v"
  using frame_parsed [OF assms(2) body_src3_update_block [OF assms(1)]] .

lemma frame_dist1_update_page_sent:
  assumes "map request_body (snd (dist1_update_page rt api args)) = [Some body]"
  shows "frame args body [''name'', ''slug'', ''description'', ''position''] False k v"
proof -
  from assms have "body = dist1_update_page_data args"
    by (simp add: dist1_update_page_def Let_def snd_dist_reply)
  then show ?thesis by (simp add: frame_dist1_update_page)
qed

lemma frame_dist1_update_page_theme_sent:
  assumes "map request_body (snd (dist1_update_page_theme rt api args)) = [Some body]"
  shows "frame args body [''content'', ''isComponent'', ''componentPageThemeId''] False k v"
proof -
  from assms have "body = dist1_update_page_theme_data args"
    by (simp add: dist1_update_page_theme_def Let_def snd_dist_reply)
  then show ?thesis by (simp add: frame_dist1_update_page_theme)
qed

lemma frame_dist1_update_block_sent:
  assumes "map request_body (snd (dist1_update_block rt api args)) = [Some body]"
  shows "frame args body [''name'', ''content'', ''kind'', ''isComponent'', ''componentBlockId''] False k v"
proof -
  from assms have "body = dist1_update_block_data args"
    by (simp add: dist1_update_block_def Let_def snd_dist_reply)
  then show ?thesis by (simp add: frame_dist1_update_block)
qed

lemma update_tools_frame:
  assumes "t \<in> set update_tools"
    and "map request_body (snd (run t rt api args)) = [Some body]"
  shows "frame args body (optional_params t) (content_is_string t) k v"
  using assms unfolding update_tools_def
  apply (simp only: set_simps insert_iff empty_iff)
  apply (elim disjE)
  subgoal by (simp only: update_tool.simps, erule frame_src1_update_page, simp)
  subgoal by (simp only: update_tool.simps, erule frame_src1_update_page_theme, simp)
  subgoal by (simp only: update_tool.simps, erule frame_src1_update_block, simp)
  subgoal by (simp only: update_tool.simps, erule frame_src2_update_page, simp)
  subgoal by (simp only: update_tool.simps, erule frame_src2_update_page_theme, simp)
  subgoal by (simp only: update_tool.simps, erule frame_src2_update_block, simp)
  subgoal by (simp only: update_tool.simps, erule frame_src3_update_page, simp)
  subgoal by (simp only: update_tool.simps, erule frame_src3_update_page_theme, simp)
  subgoal by (simp only: update_tool.simps, erule frame_src3_update_block, simp)
  subgoal by (simp only: update_tool.simps, erule frame_dist1_update_page_sent)
  subgoal by (simp only: update_tool.simps, erule frame_dist1_update_page_theme_sent)
  subgoal by (simp only: update_tool.simps, erule frame_dist1_update_block_sent)
  subgoal by (erule FalseE)
  done

lemma update_block_kind_only:
  assumes "h \<in> set update_block_tools"
  shows "map request_body (snd (h rt api [(''blockId'', String b), (''kind'', String ''text'')]))
           = [Some [(''kind'', String ''text'')]]"
  using assms unfolding update_block_tools_def
  by (auto simp: src1_update_block_def src2_update_block_def src3_update_block_def
      dist1_update_block_def dist1_update_block_data_def Let_def src1_reply_def src2_reply_def
      snd_axios_reply snd_sdk_reply snd_dist_reply omit_def lookup_def set_if_defined_def)

text \<open>
  Claim C3, as amended. For every update tool (update-page, update-page-theme and
  update-block of the four programs that have them) and every input, a key omitted from
  the input is not a key of the outgoing body, and every declared optional parameter that
  is given, null included, is in the body with exactly the given value, except a
  \<open>content\<close> that the tool takes as a JSON string: that one is sent parsed, or not at
  all when it is empty. update-block called with only \<open>blockId\<close> and
  \<open>kind = "text"\<close> sends the body \<open>{"kind":"text"}\<close>.
\<close>

theorem update_body_frame:
  "(t \<in> set update_tools \<and> map request_body (snd (run t rt api args)) = [Some body] \<longrightarrow>
      (map_of args k = None \<longrightarrow> map_of body k = None) \<and>
      (k \<in> set (optional_params t) \<and> map_of args k = Some v \<and> v \<noteq> Undefined \<and>
       \<not> (content_is_string t \<and> k = ''content'') \<longrightarrow> map_of body k = Some v)) \<and>
   (h \<in> set update_block_tools \<longrightarrow>
      map request_body (snd (h rt api [(''blockId'', String b), (''kind'', String ''text'')]))
        = [Some [(''kind'', String ''text'')]])"
proof (rule conjI)
  show "t \<in> set update_tools \<and> map request_body (snd (run t rt api args)) = [Some body] \<longrightarrow>
      (map_of args k = None \<longrightarrow> map_of body k = None) \<and>
      (k \<in> set (optional_params t) \<and> map_of args k = Some v \<and> v \<noteq> Undefined \<and>
       \<not> (content_is_string t \<and> k = ''content'') \<longrightarrow> map_of body k = Some v)"
  proof
    assume "t \<in> set update_tools \<and> map request_body (snd (run t rt api args)) = [Some body]"
    then have "frame args body (optional_params t) (content_is_string t) k v"
      using update_tools_frame [of t rt api args body k v] by (elim conjE)
    then show "(map_of args k = None \<longrightarrow> map_of body k = None) \<and>
      (k \<in> set (optional_params t) \<and> map_of args k = Some v \<and> v \<noteq> Undefined \<and>
       \<not> (content_is_string t \<and> k = ''content'') \<longrightarrow> map_of body k = Some v)"
      by (simp only: frame_def)
  qed
  show "h \<in> set update_block_tools \<longrightarrow>
      map request_body (snd (h rt api [(''blockId'', String b), (''kind'', String ''text'')]))
        = [Some [(''kind'', String ''text'')]]"
    using update_block_kind_only [of h rt api b] by (rule impI)
qed

theorem update_body_frame_witness:
  "\<lparr>run = dist1_update_block, id_param = ''blockId'',
     optional_params = [''name'', ''content'', ''kind'', ''isComponent'', ''componentBlockId''],
     content_is_string = False\<rparr> \<in> set update_tools \<and>
   map request_body
     (snd (dist1_update_block test_runtime (always (Fulfilled Null))
             [(''blockId'', String some_id), (''componentBlockId'', Null)]))
     = [Some [(''componentBlockId'', Null)]] \<and>
   map_of [(''blockId'', String some_id), (''componentBlockId'', Null)] ''name'' = None \<and>
   map_of [(''componentBlockId'', Null)] ''name'' = None \<and>
   map_of [(''blockId'', String some_id), (''componentBlockId'', Null)] ''componentBlockId''
     = Some Null \<and>
   map_of [(''componentBlockId'', Null)] ''componentBlockId'' = Some Null \<and>
   src3_update_block \<in> set update_block_tools \<and>
   map request_body
     (snd (src3_update_block test_runtime (always (Fulfilled Null))
             [(''blockId'', String some_id), (''kind'', String ''text'')]))
     = [Some [(''kind'', String ''text'')]]"
proof -
  let ?t = "\<lparr>run = dist1_update_block, id_param = ''blockId'',
     optional_params = [''name'', ''content'', ''kind'', ''isComponent'', ''componentBlockId''],
     content_is_string = False\<rparr>"
  let ?args = "[(''blockId'', String some_id), (''componentBlockId'', Null)]"
  have m: "?t \<in> set update_tools" by (simp add: update_tools_def)
  have b: "map request_body (snd (run ?t test_runtime (always (Fulfilled Null)) ?args))
             = [Some [(''componentBlockId'', Null)]]"
    by (simp add: dist1_update_block_def dist1_update_block_data_def Let_def snd_dist_reply
        lookup_def set_if_defined_def)
  have u: "src3_update_block \<in> set update_block_tools" by (simp add: update_block_tools_def)
  have a1: "map_of ?args ''name'' = None" by simp
  have a2: "map_of ?args ''componentBlockId'' = Some Null" by simp
  from update_body_frame [of ?t test_runtime "always (Fulfilled Null)" ?args
      "[(''componentBlockId'', Null)]" "''name''" Null src3_update_block some_id] m b a1
  have r1: "map_of [(''componentBlockId'', Null)] ''name'' = None" by blast
  from update_body_frame [of ?t test_runtime "always (Fulfilled Null)" ?args
      "[(''componentBlockId'', Null)]" "''componentBlockId''" Null src3_update_block some_id]
    m b a2 u
  have r2: "map_of [(''componentBlockId'', Null)] ''componentBlockId'' = Some Null"
    and r3: "map request_body
     (snd (src3_update_block test_runtime (always (Fulfilled Null))
             [(''blockId'', String some_id), (''kind'', String ''text'')]))
     = [Some [(''kind'', String ''text'')]]"
    by simp_all
  from m b a1 a2 u r1 r2 r3 show ?thesis by simp
qed

text \<open>
  Claim C3 as stated fails: update-block of the Axios server, given the content string
  \<open>null\<close>, sends the content null, not the string it was given.
\<close>

theorem string_content_is_not_sent_as_given:
  "map request_body
     (snd (src3_update_block test_runtime (always (Fulfilled Null))
             [(''blockId'', String some_id), (''content'', String ''null'')]))
   = [Some [(''content'', Null)]] \<and> Null \<noteq> String ''null''"
  by (simp add: src3_update_block_def Let_def snd_axios_reply lookup_def omit_def test_runtime_def
      param_string_String)

section \<open>Defaults of create-site\<close>

lemmas create_site_defs =
  src1_create_site_def src2_create_site_def src3_create_site_def dist1_create_site_def
  dist2_create_site_def src1_create_site_data_def src2_create_site_data_def
  src3_create_site_data_def dist1_create_site_data_def dist2_create_site_data_def

text \<open>
  What the handlers of create-site do once they run. Each makes one upstream call. When
  \<open>status\<close> is omitted, the status of its body is the documented default. When
  \<open>pages\<close> is omitted, its pages are exactly one page, whose slug is the documented
  index-page slug, whose theme has an empty content (\<open>{}\<close>, or null in the second
  program of index.js) and which has no blocks (an empty \<open>blocks\<close> array, or no
  \<open>blocks\<close> key in the first program of index.js).
\<close>

lemma create_site_handler_defaults:
  "\<exists>body. map request_body (snd (create_site p rt api args)) = [Some body] \<and>
     (map_of args ''status'' = None \<longrightarrow>
        map_of body ''status'' = Some (String (documented_status p))) \<and>
     (map_of args ''pages'' = None \<longrightarrow>
        (\<exists>page theme.
           map_of body ''pages'' = Some (Array [Object page]) \<and>
           map_of page ''slug'' = Some (String (documented_index_slug p)) \<and>
           map_of page ''pageTheme'' = Some (Object theme) \<and>
           map_of theme ''content'' = Some (if p = Dist2 then Null else Object []) \<and>
           map_of page ''blocks'' = (if p = Dist1 then None else Some (Array []))))"
  by (cases p)
     (simp_all add: create_site_defs Let_def src1_reply_def src2_reply_def snd_axios_reply
        snd_sdk_reply snd_dist_reply lookup_absent or_else_def)

text \<open>
  In four of the programs the schema of create-site has no \<open>pages\<close> parameter, and the
  handler always sends the default page. The schema of the Axios server declares one.
\<close>

lemma create_site_pages_parameter:
  "(p = Src3) = (\<exists>sch t. (''create-site'', sch) \<in> set (schemas p) \<and> (''pages'', t) \<in> set sch)"
  by (cases p)
     (auto simp: src1_schemas_def src2_schemas_def src3_schemas_def dist1_schemas_def
        dist2_schemas_def uuid_param_def opt_def)

text \<open>
  Claim C6 says that a call of create-site without \<open>status\<close> sends the documented
  default status, and without \<open>pages\<close> sends exactly one default page. It fails
  on the Axios server, for the call of the specification's second scenario: create-site
  with \<open>{name:"Acme", slug:"acme", businessType:"retail"}\<close>. Its schema declares
  \<open>pages\<close> as \<open>z.array(...)\<close> without \<open>.optional()\<close>, so the call fails
  validation and no request is sent. The default that the handler holds for omitted pages
  (\<open>pages || [...]\<close>, which the last conjunct evaluates) is never reached.
\<close>

theorem create_site_without_pages_is_rejected:
  "(''create-site'', src3_create_site) \<in> set (tools Src3) \<and>
   (\<exists>sch. map_of (schemas Src3) ''create-site'' = Some sch \<and>
          map_of sch ''pages'' = Some (ZArray src3_page_schema) \<and>
          \<not> validate (\<lambda>s. False) sch
              [(''name'', String ''Acme''), (''slug'', String ''acme''),
               (''businessType'', String ''retail'')] \<and>
          call_tool (\<lambda>s. False) (\<lambda>sch args. ''Invalid arguments'') sch src3_create_site
              test_runtime (always (Fulfilled Null))
              [(''name'', String ''Acme''), (''slug'', String ''acme''),
               (''businessType'', String ''retail'')]
            = (Returns (text_content ''Error: Invalid arguments''), [])) \<and>
   map request_body
     (snd (src3_create_site test_runtime (always (Fulfilled Null))
             [(''name'', String ''Acme''), (''slug'', String ''acme''),
              (''businessType'', String ''retail'')]))
     = [Some [(''name'', String ''Acme''),
              (''slug'', String ''acme''),
              (''businessType'', String ''retail''),
              (''description'', Null),
              (''status'', String ''UNPUBLISHED''),
              (''pages'', Array [Object
                 [(''slug'', String ''index''),
                  (''name'', String ''Acme''),
                  (''description'', Null),
                  (''pageTheme'', Object [(''content'', Object []), (''componentPageThemeId'', Null)]),
                  (''blocks'', Array [])]])]]"
proof -
  let ?args = "[(''name'', String ''Acme''), (''slug'', String ''acme''),
                (''businessType'', String ''retail'')]"
  let ?sch = "[(''name'', ZString), (''slug'', ZString), (''businessType'', ZString),
               opt ''description'' ZString, opt ''status'' site_status,
               (''pages'', ZArray src3_page_schema)]"
  have t: "(''create-site'', src3_create_site) \<in> set (tools Src3)"
    by (simp add: src3_tools_def)
  have s: "map_of (schemas Src3) ''create-site'' = Some ?sch"
    by (simp add: src3_schemas_def)
  have g: "map_of ?sch ''pages'' = Some (ZArray src3_page_schema)"
    by (simp add: opt_def)
  have v: "\<not> validate (\<lambda>s. False) ?sch ?args"
    by (simp add: validate_def opt_def lookup_def)
  have c: "call_tool (\<lambda>s. False) (\<lambda>sch args. ''Invalid arguments'') ?sch src3_create_site
             test_runtime (always (Fulfilled Null)) ?args
           = (Returns (text_content ''Error: Invalid arguments''), [])"
    using v by (simp add: call_tool_def)
  have h: "map request_body (snd (src3_create_site test_runtime (always (Fulfilled Null)) ?args))
           = [Some [(''name'', String ''Acme''),
              (''slug'', String ''acme''),
              (''businessType'', String ''retail''),
              (''description'', Null),
              (''status'', String ''UNPUBLISHED''),
              (''pages'', Array [Object
                 [(''slug'', String ''index''),
                  (''name'', String ''Acme''),
                  (''description'', Null),
                  (''pageTheme'', Object [(''content'', Object []), (''componentPageThemeId'', Null)]),
                  (''blocks'', Array [])]])]]"
    by (simp add: src3_create_site_def src3_create_site_data_def Let_def snd_axios_reply
        lookup_def or_else_def)
  from t s g v c h show ?thesis by blast
qed

section \<open>The component reference of a new block\<close>

text \<open>
  Claim C9, as amended. When \<open>componentBlockId\<close> is not provided, the body that
  create-block of the Axios server sends has the key \<open>componentBlockId\<close> with the value
  null. The body that create-block of the second program of part\_000 sends has the key
  with the value undefined, which a JSON serialisation leaves out.
\<close>

theorem create_block_component_id:
  assumes "map_of args ''componentBlockId'' = None"
  shows "(snd (src3_create_block rt api args) \<noteq> [] \<longrightarrow>
            (\<exists>body. map request_body (snd (src3_create_block rt api args)) = [Some body] \<and>
                    map_of body ''componentBlockId'' = Some Null)) \<and>
         (snd (src2_create_block rt api args) \<noteq> [] \<longrightarrow>
            (\<exists>body. map request_body (snd (src2_create_block rt api args)) = [Some body] \<and>
                    map_of body ''componentBlockId'' = Some Undefined))"
  using assms
  by (auto simp: src3_create_block_def src2_create_block_def Let_def snd_axios_reply
        snd_sdk_reply src2_reply_def update_conv' lookup_absent lookup_omit or_else_def
        split: sum.splits)

theorem create_block_component_id_witness:
  "map_of [(''pageId'', String some_id), (''name'', String ''Hero''), (''kind'', String ''text'')]
     ''componentBlockId'' = None \<and>
   snd (src3_create_block test_runtime (always (Fulfilled Null))
          [(''pageId'', String some_id), (''name'', String ''Hero''), (''kind'', String ''text'')])
     \<noteq> [] \<and>
   (\<exists>body. map request_body
              (snd (src3_create_block test_runtime (always (Fulfilled Null))
                      [(''pageId'', String some_id), (''name'', String ''Hero''),
                       (''kind'', String ''text'')])) = [Some body] \<and>
           map_of body ''componentBlockId'' = Some Null) \<and>
   snd (src2_create_block test_runtime (always (Fulfilled Null))
          [(''pageId'', String some_id), (''name'', String ''Hero''), (''kind'', String ''text'')])
     \<noteq> [] \<and>
   (\<exists>body. map request_body
              (snd (src2_create_block test_runtime (always (Fulfilled Null))
                      [(''pageId'', String some_id), (''name'', String ''Hero''),
                       (''kind'', String ''text'')])) = [Some body] \<and>
           map_of body ''componentBlockId'' = Some Undefined)"
proof -
  let ?args = "[(''pageId'', String some_id), (''name'', String ''Hero''),
                (''kind'', String ''text'')]"
  have a: "map_of ?args ''componentBlockId'' = None" by simp
  have n3: "snd (src3_create_block test_runtime (always (Fulfilled Null)) ?args) \<noteq> []"
    by (simp add: src3_create_block_def Let_def snd_axios_reply lookup_def)
  have n2: "snd (src2_create_block test_runtime (always (Fulfilled Null)) ?args) \<noteq> []"
    by (simp add: src2_create_block_def Let_def src2_reply_def snd_sdk_reply lookup_def)
  from create_block_component_id [OF a, of test_runtime "always (Fulfilled Null)"] a n3 n2
  show ?thesis by blast
qed

text \<open>
  Claim C9 as stated fails: create-block of the second program of part\_000, called without
  \<open>componentBlockId\<close>, sends a body whose \<open>componentBlockId\<close> is undefined, not null.
\<close>

theorem component_id_left_undefined:
  "map request_body
     (snd (src2_create_block test_runtime (always (Fulfilled Null))
             [(''pageId'', String some_id), (''name'', String ''Hero''),
              (''kind'', String ''text'')]))
   = [Some [(''name'', String ''Hero''), (''kind'', String ''text''),
            (''isComponent'', Bool False), (''componentBlockId'', Undefined)]] \<and>
   map_of [(''name'', String ''Hero''), (''kind'', String ''text''),
           (''isComponent'', Bool False), (''componentBlockId'', Undefined)]
     ''componentBlockId'' \<noteq> Some Null"
  by (simp add: src2_create_block_def Let_def snd_sdk_reply src2_reply_def lookup_def or_else_def)

section \<open>The message of an upstream error\<close>

text \<open>
  Claim C8, as amended. In the Axios server, when the call of get-site is rejected with an
  \<open>AxiosError\<close> that carries a response (as Axios does for every answer outside 2xx)
  whose body is an object with a truthy \<open>message\<close> that has a string form, as every
  string that is not empty has, the output text is \<open>Error: \<close> followed by that
  message. A 404 with the body \<open>{"message":"Site not found"}\<close> gives
  \<open>Error: Site not found\<close>.
\<close>

theorem upstream_message_is_reported:
  assumes "lookup args ''siteId'' = String i"
    and "api (Call ''fingertipApi.get'' [String (''/sites/'' @ i)])
           = Rejected (AxiosError m (Some r))"
    and "data r = Object body"
    and "map_of body ''message'' = Some msg"
    and "truthy msg"
    and "to_string rt msg = Inr s"
  shows "fst (src3_get_site rt api args) = Returns (text_content (''Error: '' @ s))"
  using assms
  by (simp add: src3_get_site_def axios_reply_def axios_catch_def Let_def param_string_String)

theorem upstream_message_is_reported_witness:
  "lookup [(''siteId'', String some_id)] ''siteId'' = String some_id \<and>
   always (Rejected (AxiosError ''Request failed with status code 404''
             (Some \<lparr>status = 404, data = Object [(''message'', String ''Site not found'')]\<rparr>)))
     (Call ''fingertipApi.get'' [String (''/sites/'' @ some_id)])
     = Rejected (AxiosError ''Request failed with status code 404''
         (Some \<lparr>status = 404, data = Object [(''message'', String ''Site not found'')]\<rparr>)) \<and>
   data \<lparr>status = 404, data = Object [(''message'', String ''Site not found'')]\<rparr>
     = Object [(''message'', String ''Site not found'')] \<and>
   map_of [(''message'', String ''Site not found'')] ''message'' = Some (String ''Site not found'') \<and>
   truthy (String ''Site not found'') \<and>
   to_string test_runtime (String ''Site not found'') = Inr ''Site not found'' \<and>
   fst (src3_get_site test_runtime
          (always (Rejected (AxiosError ''Request failed with status code 404''
             (Some \<lparr>status = 404, data = Object [(''message'', String ''Site not found'')]\<rparr>))))
          [(''siteId'', String some_id)])
     = Returns (text_content ''Error: Site not found'')"
proof -
  let ?r = "\<lparr>status = 404, data = Object [(''message'', String ''Site not found'')]\<rparr>"
  let ?api = "always (Rejected (AxiosError ''Request failed with status code 404'' (Some ?r)))"
  have l: "lookup [(''siteId'', String some_id)] ''siteId'' = String some_id"
    by (simp add: lookup_def)
  have a: "?api (Call ''fingertipApi.get'' [String (''/sites/'' @ some_id)])
           = Rejected (AxiosError ''Request failed with status code 404'' (Some ?r))"
    by (simp add: always_def)
  have d: "data ?r = Object [(''message'', String ''Site not found'')]" by simp
  have k: "map_of [(''message'', String ''Site not found'')] ''message''
           = Some (String ''Site not found'')" by simp
  have t: "truthy (String ''Site not found'')" by simp
  have p: "to_string test_runtime (String ''Site not found'') = Inr ''Site not found''" by simp
  from upstream_message_is_reported [of "[(''siteId'', String some_id)]" some_id ?api
      "''Request failed with status code 404''" ?r "[(''message'', String ''Site not found'')]"
      "String ''Site not found''" test_runtime "''Site not found''"] l a d k t p
  show ?thesis by simp
qed

text \<open>
  Claim C8 as stated fails: a 404 whose body has the empty string as its \<open>message\<close>
  gives the message of the AxiosError, not \<open>Error: \<close> followed by the message field.
\<close>

theorem empty_upstream_message_is_skipped:
  "fst (src3_get_site test_runtime
          (always (Rejected (AxiosError ''Request failed with status code 404''
             (Some \<lparr>status = 404, data = Object [(''message'', String [])]\<rparr>))))
          [(''siteId'', String some_id)])
     = Returns (text_content ''Error: Request failed with status code 404'') \<and>
   to_string test_runtime (String []) = Inr [] \<and>
   ''Error: Request failed with status code 404'' \<noteq> ''Error: '' @ []"
  by (simp add: src3_get_site_def axios_reply_def axios_catch_def Let_def always_def)

text \<open>
  The other programs do not look at the body of the response: get-site of the first
  program of index.js answers the same 404, with the message \<open>Site not found\<close>, by its
  fixed sentence.
\<close>

lemma digest_get_site_ignores_message:
  "fst (dist1_get_site test_runtime
          (always (Rejected (AxiosError ''Request failed with status code 404''
             (Some \<lparr>status = 404, data = Object [(''message'', String ''Site not found'')]\<rparr>))))
          [(''siteId'', String ''abc'')])
     = Returns (text_content
         ''Failed to retrieve site with ID: abc. The site may not exist or you may not have permission to access it.'')"
  by (simp add: dist1_get_site_def Let_def dist_reply_def always_def lookup_def
      param_string_String)

section \<open>An identifier that is not a UUID\<close>

lemma id_param_is_uuid:
  assumes "(name, sch) \<in> set (schemas p)"
    and "k = ''siteId'' \<or> k = ''pageId'' \<or> k = ''blockId''"
    and "(k, t) \<in> set sch"
  shows "t = ZUuid"
  using assms
  by (cases p)
     (auto simp: src1_schemas_def src2_schemas_def src3_schemas_def dist1_schemas_def
        dist2_schemas_def uuid_param_def opt_def)

text \<open>
  Claim C2. In every program, every tool whose schema has a parameter \<open>siteId\<close>,
  \<open>pageId\<close> or \<open>blockId\<close> declares it as \<open>z.string().uuid()\<close>; so for every
  input in which that parameter is a string that is not a UUID in the syntax of RFC 4122,
  the call yields the validation-error envelope and no upstream call is made, whatever the
  handler is.
\<close>

theorem invalid_uuid_is_rejected:
  assumes "(name, sch) \<in> set (schemas p)"
    and "k = ''siteId'' \<or> k = ''pageId'' \<or> k = ''blockId''"
    and "(k, t) \<in> set sch"
    and "lookup args k = String s"
    and "\<not> is_uuid s"
  shows "call_tool numeric describe sch h rt api args
           = (Returns (text_content (''Error: '' @ describe sch args)), [])"
proof -
  from assms(1-3) have "t = ZUuid" by (rule id_param_is_uuid)
  with assms(3) have "(k, ZUuid) \<in> set sch" by simp
  moreover have "\<not> accepts numeric (snd (k, ZUuid)) (lookup args (fst (k, ZUuid)))"
    using assms(4,5) by simp
  ultimately have "\<not> validate numeric sch args"
    unfolding validate_def list_all_iff by blast
  then show ?thesis by (simp add: call_tool_def)
qed

theorem invalid_uuid_is_rejected_witness:
  "(''get-site'', [uuid_param ''siteId'']) \<in> set (schemas Src3) \<and>
   (''siteId'', ZUuid) \<in> set [uuid_param ''siteId''] \<and>
   lookup [(''siteId'', String ''not-a-uuid'')] ''siteId'' = String ''not-a-uuid'' \<and>
   \<not> is_uuid ''not-a-uuid'' \<and>
   call_tool (\<lambda>s. False) (\<lambda>sch args. ''Invalid arguments'') [uuid_param ''siteId'']
       src3_get_site test_runtime (always (Fulfilled Null)) [(''siteId'', String ''not-a-uuid'')]
     = (Returns (text_content ''Error: Invalid arguments''), [])"
proof -
  have m: "(''get-site'', [uuid_param ''siteId'']) \<in> set (schemas Src3)"
    by (simp add: src3_schemas_def)
  have k: "''siteId'' = ''siteId'' \<or> ''siteId'' = ''pageId'' \<or> ''siteId'' = ''blockId''"
    by simp
  have f: "(''siteId'', ZUuid) \<in> set [uuid_param ''siteId'']"
    by (simp add: uuid_param_def)
  have l: "lookup [(''siteId'', String ''not-a-uuid'')] ''siteId'' = String ''not-a-uuid''"
    by (simp add: lookup_def)
  have n: "\<not> is_uuid ''not-a-uuid''"
    by (simp add: is_uuid_def)
  from invalid_uuid_is_rejected [OF m k f l n, of "\<lambda>s. False" "\<lambda>sch args. ''Invalid arguments''"
      src3_get_site test_runtime "always (Fulfilled Null)"] m f l n
  show ?thesis by simp
qed

end
